theory Spec2Isabelle
  imports Complex_Main "HOL-Library.Sublist"
begin

section \<open>Data model of the live audio session engine\<close>

text \<open>
  The class \<^verbatim>\<open>GeminiLiveService\<close> of \<^verbatim>\<open>src/services/geminiLiveService.ts\<close> is
  modelled as a record of its private fields. Browser objects it holds (audio contexts,
  the microphone stream, audio nodes) are small records or object identities; every call
  that leaves the class (Web Audio calls, transport calls, the callbacks handed to
  \<^verbatim>\<open>connect\<close>, console output) is appended to a log of effects kept in the state, so
  that "was stopped", "was closed" and "was notified exactly once" are statements about
  that log. JavaScript numbers that hold times are modelled as \<open>real\<close>.
\<close>

datatype role = User | Model

datatype ctx_state = Suspended | Running | Closed

text \<open>An \<^verbatim>\<open>AudioContext\<close>: its identity, its \<^verbatim>\<open>state\<close> and the clock \<^verbatim>\<open>currentTime\<close>.\<close>

record audio_ctx =
  ctx_id :: nat
  ctx_state :: ctx_state
  currentTime :: real

text \<open>An \<^verbatim>\<open>AudioBuffer\<close>; Web Audio defines \<^verbatim>\<open>duration\<close> as length over sample rate.\<close>

record audio_buffer =
  buf_length :: nat
  buf_rate :: nat

definition duration :: "audio_buffer \<Rightarrow> real" where
  "duration b = real (buf_length b) / real (buf_rate b)"

text \<open>An \<^verbatim>\<open>AudioBufferSourceNode\<close> created by \<^verbatim>\<open>createBufferSource\<close>.\<close>

record source_node =
  src_id :: nat
  src_buffer :: audio_buffer

text \<open>A \<^verbatim>\<open>MediaStream\<close> with the identities of its tracks.\<close>

record media_stream =
  tracks :: "nat list"

text \<open>The session object a fulfilled connection promise carries.\<close>

record session =
  has_close :: bool
  close_throws :: bool

datatype settled = Fulfilled session | Rejected

datatype promise = Pending | Settled settled

datatype effect =
    SourceStart nat real
  | SourceStop nat
  | TrackStop nat
  | ContextClose nat
  | ContextResume nat
  | NodeDisconnect nat
  | SessionClose
  | SendRealtimeInput string string
  | OnOpen
  | OnClose
  | OnError
  | OnTranscript string role
  | ConsoleError string
  | ConsoleLog string
  | CleanupCalled

text \<open>
  The fields of the class, in the order of the source. \<open>scheduledSources\<close> is the
  JavaScript \<^verbatim>\<open>Set\<close> in insertion order. \<open>fresh\<close> is the next unused object identity and
  \<open>effects\<close> the log; both are bookkeeping of the model.
\<close>

record service =
  sessionPromise :: "promise option"
  audioContext :: "audio_ctx option"
  inputAudioContext :: "audio_ctx option"
  inputSource :: "nat option"
  processor :: "nat option"
  stream :: "media_stream option"
  nextStartTime :: real
  scheduledSources :: "source_node list"
  outputGain :: "nat option"
  outputAnalyser :: "nat option"
  currentInputTranscription :: string
  currentOutputTranscription :: string
  isConnected :: bool
  fresh :: nat
  effects :: "effect list"

text \<open>The state the field initialisers of the class give.\<close>

definition new_service :: service where
  "new_service =
     \<lparr>sessionPromise = None, audioContext = None, inputAudioContext = None,
      inputSource = None, processor = None, stream = None, nextStartTime = 0,
      scheduledSources = [], outputGain = None, outputAnalyser = None,
      currentInputTranscription = [], currentOutputTranscription = [],
      isConnected = False, fresh = 0, effects = []\<rparr>"

definition emit :: "effect list \<Rightarrow> service \<Rightarrow> service" where
  "emit es s = s\<lparr>effects := effects s @ es\<rparr>"

definition getOutputAnalyser :: "service \<Rightarrow> nat option" where
  "getOutputAnalyser s = outputAnalyser s"

text \<open>
  The sink's clock runs on its own; \<open>set_clock\<close> is the step of the environment that
  moves \<^verbatim>\<open>audioContext.currentTime\<close> between two handlers.
\<close>

definition set_clock :: "real \<Rightarrow> service \<Rightarrow> service" where
  "set_clock t s =
     (case audioContext s of
        None \<Rightarrow> s
      | Some c \<Rightarrow> s\<lparr>audioContext := Some (c\<lparr>currentTime := t\<rparr>)\<rparr>)"

subsection \<open>Inbound messages\<close>

record blob =
  mimeType :: string
  data :: string

record part =
  inlineData :: "blob option"

record content =
  parts :: "part list option"

record transcription =
  text_of :: "string option"

record server_content =
  interrupted :: "bool option"
  modelTurn :: "content option"
  inputTranscription :: "transcription option"
  outputTranscription :: "transcription option"
  turnComplete :: "bool option"

record message =
  serverContent :: "server_content option"

text \<open>Truthiness of an optional boolean, as JavaScript tests it.\<close>

definition truthy_flag :: "bool option \<Rightarrow> bool" where
  "truthy_flag b = (b = Some True)"

definition msg_interrupted :: "message \<Rightarrow> bool" where
  "msg_interrupted m =
     (case serverContent m of None \<Rightarrow> False | Some sc \<Rightarrow> truthy_flag (interrupted sc))"

definition msg_parts :: "message \<Rightarrow> part list" where
  "msg_parts m =
     (case serverContent m of
        None \<Rightarrow> []
      | Some sc \<Rightarrow>
          (case modelTurn sc of
             None \<Rightarrow> []
           | Some mt \<Rightarrow> (case parts mt of None \<Rightarrow> [] | Some ps \<Rightarrow> ps)))"

definition msg_input_text :: "message \<Rightarrow> string option" where
  "msg_input_text m =
     (case serverContent m of
        None \<Rightarrow> None
      | Some sc \<Rightarrow> (case inputTranscription sc of None \<Rightarrow> None | Some t \<Rightarrow> text_of t))"

definition msg_output_text :: "message \<Rightarrow> string option" where
  "msg_output_text m =
     (case serverContent m of
        None \<Rightarrow> None
      | Some sc \<Rightarrow> (case outputTranscription sc of None \<Rightarrow> None | Some t \<Rightarrow> text_of t))"

definition msg_turn_complete :: "message \<Rightarrow> bool" where
  "msg_turn_complete m =
     (case serverContent m of None \<Rightarrow> False | Some sc \<Rightarrow> truthy_flag (turnComplete sc))"

text \<open>
  \<^verbatim>\<open>String.prototype.trim\<close>: the white space and line terminators of ECMAScript among
  the code units U+0000 to U+00FF, which is what a \<open>char\<close> holds.
\<close>

definition is_space :: "char \<Rightarrow> bool" where
  "is_space c = (of_char c \<in> {9, 10, 11, 12, 13, 32, 160 :: nat})"

definition trim :: "string \<Rightarrow> string" where
  "trim x = rev (dropWhile is_space (rev (dropWhile is_space x)))"

section \<open>Playback scheduler\<close>

text \<open>
  \<^verbatim>\<open>decodeBase64\<close> and \<^verbatim>\<open>decodeAudioData\<close> live in \<^verbatim>\<open>utils/audioUtils\<close>, which is not
  part of the sources at hand; their composition is the parameter \<open>decode\<close>, \<open>None\<close>
  when either of them throws.
\<close>

type_synonym decoder = "string \<Rightarrow> audio_buffer option"

definition queueAudioOutput :: "decoder \<Rightarrow> string \<Rightarrow> service \<Rightarrow> service" where
  "queueAudioOutput decode base64Audio s =
     (case audioContext s of
        None \<Rightarrow> s
      | Some ctx \<Rightarrow>
          if outputGain s = None then s
          else
            (case decode base64Audio of
               None \<Rightarrow> emit [ConsoleError ''Error decoding audio''] s
             | Some audioBuffer \<Rightarrow>
                 let now = currentTime ctx;
                     start = (if nextStartTime s < now then now else nextStartTime s);
                     source = \<lparr>src_id = fresh s, src_buffer = audioBuffer\<rparr>
                 in s\<lparr>nextStartTime := start + duration audioBuffer,
                       scheduledSources := scheduledSources s @ [source],
                       fresh := Suc (fresh s),
                       effects := effects s @ [SourceStart (src_id source) start]\<rparr>))"

text \<open>The \<^verbatim>\<open>onended\<close> handler of a scheduled source.\<close>

definition source_onended :: "nat \<Rightarrow> service \<Rightarrow> service" where
  "source_onended i s =
     s\<lparr>scheduledSources := filter (\<lambda>src. src_id src \<noteq> i) (scheduledSources s)\<rparr>"

definition stopAllScheduledAudio :: "service \<Rightarrow> service" where
  "stopAllScheduledAudio s =
     (let s1 = s\<lparr>effects := effects s @ map (\<lambda>src. SourceStop (src_id src)) (scheduledSources s),
                  scheduledSources := []\<rparr>
      in case audioContext s1 of
           None \<Rightarrow> s1
         | Some ctx \<Rightarrow> s1\<lparr>nextStartTime := currentTime ctx\<rparr>)"

section \<open>Session protocol handler\<close>

text \<open>
  \<^verbatim>\<open>handleMessage\<close> is an async function. On the event loop each stretch between two
  awaits runs without interruption; the model takes one call of \<^verbatim>\<open>handleMessage\<close> as
  one step, so the awaits inside it (the decode of each audio part) are not interleaved
  with other handlers. The awaits on browser and transport operations that take time are
  modelled with what happens meanwhile, where that is the subject: the await of
  \<^verbatim>\<open>disconnect\<close> on the session promise, the two awaits of \<^verbatim>\<open>cleanup\<close> on the closing
  of a context, and the await of \<^verbatim>\<open>connect\<close> on the microphone. The source reads
  \<^verbatim>\<open>part.inlineData.mimeType\<close> as a string without a check, and so does the model. The
  \<^verbatim>\<open>onTranscript\<close> callback is the effect \<open>OnTranscript\<close>.
\<close>

fun queue_parts :: "decoder \<Rightarrow> part list \<Rightarrow> service \<Rightarrow> service" where
  "queue_parts decode [] s = s"
| "queue_parts decode (p # ps) s =
     queue_parts decode ps
       (case inlineData p of
          None \<Rightarrow> s
        | Some b \<Rightarrow>
            if prefix ''audio/pcm'' (mimeType b) then queueAudioOutput decode (data b) s
            else s)"

definition append_input :: "message \<Rightarrow> service \<Rightarrow> service" where
  "append_input m s =
     (case msg_input_text m of
        None \<Rightarrow> s
      | Some t \<Rightarrow>
          if t \<noteq> [] then s\<lparr>currentInputTranscription := currentInputTranscription s @ t\<rparr>
          else s)"

definition append_output :: "message \<Rightarrow> service \<Rightarrow> service" where
  "append_output m s =
     (case msg_output_text m of
        None \<Rightarrow> s
      | Some t \<Rightarrow>
          if t \<noteq> [] then s\<lparr>currentOutputTranscription := currentOutputTranscription s @ t\<rparr>
          else s)"

definition dispatch_input :: "service \<Rightarrow> service" where
  "dispatch_input s =
     (if trim (currentInputTranscription s) \<noteq> []
      then (emit [OnTranscript (currentInputTranscription s) User] s)
             \<lparr>currentInputTranscription := []\<rparr>
      else s)"

definition dispatch_output :: "service \<Rightarrow> service" where
  "dispatch_output s =
     (if trim (currentOutputTranscription s) \<noteq> []
      then (emit [OnTranscript (currentOutputTranscription s) Model] s)
             \<lparr>currentOutputTranscription := []\<rparr>
      else s)"

definition handleMessage :: "decoder \<Rightarrow> message \<Rightarrow> service \<Rightarrow> service" where
  "handleMessage decode m s =
     (if msg_interrupted m
      then (stopAllScheduledAudio s)\<lparr>currentOutputTranscription := []\<rparr>
      else
        let s1 = queue_parts decode (msg_parts m) s;
            s2 = append_input m s1;
            s3 = append_output m s2
        in if msg_turn_complete m then dispatch_output (dispatch_input s3) else s3)"

section \<open>Capture pipeline\<close>

text \<open>
  \<^verbatim>\<open>float32ToInt16\<close> and \<^verbatim>\<open>encodeBase64\<close> are in \<^verbatim>\<open>utils/audioUtils\<close> too; their
  composition is the parameter \<open>encode\<close>.
\<close>

type_synonym encoder = "real list \<Rightarrow> string"

definition startAudioInput :: "service \<Rightarrow> service" where
  "startAudioInput s =
     (case inputAudioContext s of
        None \<Rightarrow> s
      | Some inputContext \<Rightarrow>
          if stream s = None \<or> sessionPromise s = None then s
          else
            let s1 = (if ctx_state inputContext = Suspended
                      then emit [ContextResume (ctx_id inputContext)] s else s)
            in s1\<lparr>inputSource := Some (fresh s1),
                   processor := Some (Suc (fresh s1)),
                   fresh := Suc (Suc (fresh s1))\<rparr>)"

text \<open>
  The \<^verbatim>\<open>onaudioprocess\<close> handler, in its two halves. The first runs when the frame is
  produced and gives the encoded chunk it leaves pending on the session promise, or
  \<open>None\<close> when the frame is dropped on the spot. The second is the \<^verbatim>\<open>then\<close> callback,
  run when the promise has settled, in whatever state the service is by then.
\<close>

definition onaudioprocess :: "encoder \<Rightarrow> real list \<Rightarrow> service \<Rightarrow> string option" where
  "onaudioprocess encode inputData s =
     (if \<not> isConnected s \<or> sessionPromise s = None then None
      else Some (encode inputData))"

definition send_pending :: "settled \<Rightarrow> string \<Rightarrow> service \<Rightarrow> service" where
  "send_pending r base64Data s =
     (case r of
        Rejected \<Rightarrow> s
      | Fulfilled sess \<Rightarrow>
          if isConnected s then emit [SendRealtimeInput ''audio/pcm;rate=16000'' base64Data] s
          else s)"

section \<open>Lifecycle coordinator\<close>

text \<open>
  \<^verbatim>\<open>cleanup\<close>. Closing a context that is not closed succeeds in Web Audio, so the empty
  \<^verbatim>\<open>catch\<close> around \<^verbatim>\<open>close()\<close> has no branch here. \<open>CleanupCalled\<close> marks the entry,
  to count invocations.
\<close>

definition close_effects :: "audio_ctx \<Rightarrow> effect list" where
  "close_effects c = (if ctx_state c \<noteq> Closed then [ContextClose (ctx_id c)] else [])"

text \<open>The five guarded release steps of \<^verbatim>\<open>cleanup\<close>, in the order of the source.\<close>

definition release_stream :: "service \<Rightarrow> service" where
  "release_stream s =
     (case stream s of
        None \<Rightarrow> s
      | Some st \<Rightarrow> (emit (map TrackStop (tracks st)) s)\<lparr>stream := None\<rparr>)"

definition release_processor :: "service \<Rightarrow> service" where
  "release_processor s =
     (case processor s of
        None \<Rightarrow> s
      | Some p \<Rightarrow> (emit [NodeDisconnect p] s)\<lparr>processor := None\<rparr>)"

definition release_inputSource :: "service \<Rightarrow> service" where
  "release_inputSource s =
     (case inputSource s of
        None \<Rightarrow> s
      | Some i \<Rightarrow> (emit [NodeDisconnect i] s)\<lparr>inputSource := None\<rparr>)"

definition close_inputAudioContext :: "service \<Rightarrow> service" where
  "close_inputAudioContext s =
     (case inputAudioContext s of
        None \<Rightarrow> s
      | Some c \<Rightarrow> (emit (close_effects c) s)\<lparr>inputAudioContext := None\<rparr>)"

definition close_audioContext :: "service \<Rightarrow> service" where
  "close_audioContext s =
     (case audioContext s of
        None \<Rightarrow> s
      | Some c \<Rightarrow> (emit (close_effects c) s)\<lparr>audioContext := None\<rparr>)"

definition cleanup :: "service \<Rightarrow> service" where
  "cleanup s =
     (let s0 = emit [CleanupCalled] (s\<lparr>isConnected := False\<rparr>);
          s1 = release_stream s0;
          s2 = release_processor s1;
          s3 = release_inputSource s2;
          s4 = close_inputAudioContext s3;
          s5 = close_audioContext s4
      in s5\<lparr>scheduledSources := [], nextStartTime := 0, outputAnalyser := None,
             outputGain := None, sessionPromise := None\<rparr>)"

text \<open>
  \<^verbatim>\<open>cleanup\<close> above is the run in which no other handler gets its turn. The code
  suspends twice, at \<^verbatim>\<open>await this.inputAudioContext.close()\<close> and at
  \<^verbatim>\<open>await this.audioContext.close()\<close>, each time before it nulls the field, and only
  when the context is there and not closed. \<open>cleanup_during\<close> is \<^verbatim>\<open>cleanup\<close> with what
  the other handlers do to the state at these two points; after an await the field is
  nulled whatever it holds by then.
\<close>

definition close_inputAudioContext_during :: "(service \<Rightarrow> service) \<Rightarrow> service \<Rightarrow> service" where
  "close_inputAudioContext_during meanwhile s =
     (case inputAudioContext s of
        None \<Rightarrow> s
      | Some c \<Rightarrow>
          if ctx_state c \<noteq> Closed
          then (meanwhile (emit [ContextClose (ctx_id c)] s))\<lparr>inputAudioContext := None\<rparr>
          else s\<lparr>inputAudioContext := None\<rparr>)"

definition close_audioContext_during :: "(service \<Rightarrow> service) \<Rightarrow> service \<Rightarrow> service" where
  "close_audioContext_during meanwhile s =
     (case audioContext s of
        None \<Rightarrow> s
      | Some c \<Rightarrow>
          if ctx_state c \<noteq> Closed
          then (meanwhile (emit [ContextClose (ctx_id c)] s))\<lparr>audioContext := None\<rparr>
          else s\<lparr>audioContext := None\<rparr>)"

definition cleanup_during ::
  "(service \<Rightarrow> service) \<Rightarrow> (service \<Rightarrow> service) \<Rightarrow> service \<Rightarrow> service" where
  "cleanup_during while_input while_output s =
     (let s0 = emit [CleanupCalled] (s\<lparr>isConnected := False\<rparr>);
          s1 = release_stream s0;
          s2 = release_processor s1;
          s3 = release_inputSource s2;
          s4 = close_inputAudioContext_during while_input s3;
          s5 = close_audioContext_during while_output s4
      in s5\<lparr>scheduledSources := [], nextStartTime := 0, outputAnalyser := None,
             outputGain := None, sessionPromise := None\<rparr>)"

text \<open>
  What the environment does around one call of \<^verbatim>\<open>disconnect\<close>: how a session promise
  that is pending at the call settles (\<open>None\<close>: never), and what the other handlers do to
  the state while the call is suspended, at its await on the session promise and at the
  two awaits of its cleanup. \<open>quiet\<close> is the environment in which nothing happens.
\<close>

record schedule =
  settles :: "settled option"
  during_await :: "service \<Rightarrow> service"
  during_input_close :: "service \<Rightarrow> service"
  during_output_close :: "service \<Rightarrow> service"

definition quiet :: schedule where
  "quiet =
     \<lparr>settles = None, during_await = id, during_input_close = id, during_output_close = id\<rparr>"

text \<open>
  \<^verbatim>\<open>disconnect\<close>. \<open>close_session\<close> is the rest of its \<^verbatim>\<open>try\<close> block after the await,
  given how the promise settled. A promise that is pending and never settles leaves the
  call suspended for good: the result \<open>None\<close>. Nothing in \<^verbatim>\<open>disconnect\<close> can throw to
  the caller, so there is no error result. The state returned is the one in which the last
  stretch of \<^verbatim>\<open>cleanup\<close> ends.
\<close>

definition close_session :: "settled \<Rightarrow> service \<Rightarrow> service" where
  "close_session r s =
     (case r of
        Rejected \<Rightarrow> emit [ConsoleLog ''Error closing session''] s
      | Fulfilled sess \<Rightarrow>
          if has_close sess
          then (if close_throws sess
                then emit [SessionClose, ConsoleLog ''Error closing session''] s
                else emit [SessionClose] s)
          else s)"

definition awaited :: "schedule \<Rightarrow> promise \<Rightarrow> settled option" where
  "awaited sch p = (case p of Settled r \<Rightarrow> Some r | Pending \<Rightarrow> settles sch)"

definition disconnect :: "schedule \<Rightarrow> service \<Rightarrow> service option" where
  "disconnect sch s =
     (let s1 = s\<lparr>isConnected := False\<rparr>
      in case sessionPromise s1 of
           None \<Rightarrow>
             Some (cleanup_during (during_input_close sch) (during_output_close sch) s1)
         | Some p \<Rightarrow>
             (case awaited sch p of
                None \<Rightarrow> None
              | Some r \<Rightarrow>
                  Some (cleanup_during (during_input_close sch) (during_output_close sch)
                          (close_session r (during_await sch s1)))))"

text \<open>
  \<^verbatim>\<open>connect\<close> suspends at \<^verbatim>\<open>await this.disconnect()\<close> and at
  \<^verbatim>\<open>await navigator.mediaDevices.getUserMedia\<close>. \<open>connect_begin\<close> runs up to the second
  await: the disconnect under its own schedule, the reset of the transcripts, the creation
  of the two contexts, the gain and the analyser. \<open>connect_resume\<close> runs from there, in
  whatever state the service is by then: with a stream it stores the stream and the
  promise of \<^verbatim>\<open>client.live.connect\<close>; when \<^verbatim>\<open>getUserMedia\<close> rejects (\<open>None\<close>) the
  \<^verbatim>\<open>catch\<close> block notifies and cleans up. \<open>connect\<close> is the run with nothing in between.
\<close>

definition connect_begin :: "schedule \<Rightarrow> ctx_state \<Rightarrow> service \<Rightarrow> service option" where
  "connect_begin sch initial s =
     (case disconnect sch s of
        None \<Rightarrow> None
      | Some s0 \<Rightarrow>
          let s1 = s0\<lparr>currentInputTranscription := [], currentOutputTranscription := []\<rparr>
          in Some (s1\<lparr>audioContext :=
                         Some \<lparr>ctx_id = fresh s1, ctx_state = initial, currentTime = 0\<rparr>,
                       inputAudioContext :=
                         Some \<lparr>ctx_id = fresh s1 + 1, ctx_state = initial, currentTime = 0\<rparr>,
                       outputGain := Some (fresh s1 + 2),
                       outputAnalyser := Some (fresh s1 + 3),
                       fresh := fresh s1 + 4\<rparr>))"

definition connect_resume :: "media_stream option \<Rightarrow> service \<Rightarrow> service" where
  "connect_resume granted s =
     (case granted of
        None \<Rightarrow> cleanup (emit [ConsoleError ''Setup error'', OnError] s)
      | Some st \<Rightarrow> s\<lparr>stream := Some st, sessionPromise := Some Pending\<rparr>)"

record connect_env =
  prior :: schedule
  autoplay :: ctx_state
  media :: "media_stream option"

definition connect :: "connect_env \<Rightarrow> service \<Rightarrow> service option" where
  "connect env s =
     (case connect_begin (prior env) (autoplay env) s of
        None \<Rightarrow> None
      | Some s2 \<Rightarrow> Some (connect_resume (media env) s2))"

text \<open>
  The callbacks \<^verbatim>\<open>connect\<close> hands to the transport, and its \<^verbatim>\<open>catch\<close> on the promise,
  each with its cleanup running to the end before any other handler.
\<close>

definition session_onopen :: "service \<Rightarrow> service" where
  "session_onopen s = startAudioInput (emit [OnOpen] (s\<lparr>isConnected := True\<rparr>))"

definition session_onclose :: "service \<Rightarrow> service" where
  "session_onclose s =
     cleanup (emit [ConsoleLog ''Session closed'', OnClose] (s\<lparr>isConnected := False\<rparr>))"

definition session_onerror :: "service \<Rightarrow> service" where
  "session_onerror s =
     cleanup (emit [ConsoleError ''Session error'', OnError] (s\<lparr>isConnected := False\<rparr>))"

text \<open>The error callback with what other handlers do during the awaits of its cleanup.\<close>

definition session_onerror_during ::
  "(service \<Rightarrow> service) \<Rightarrow> (service \<Rightarrow> service) \<Rightarrow> service \<Rightarrow> service" where
  "session_onerror_during while_input while_output s =
     cleanup_during while_input while_output
       (emit [ConsoleError ''Session error'', OnError] (s\<lparr>isConnected := False\<rparr>))"

definition promise_rejected :: "service \<Rightarrow> service" where
  "promise_rejected s =
     (if inputAudioContext s \<noteq> None
      then cleanup (emit [ConsoleError ''Connection failed'', OnError] s)
      else s)"

text \<open>
  The transport settling the connection promise: a step of the environment, seen by the
  service only if it still holds the promise.
\<close>

definition settle_promise :: "settled \<Rightarrow> service \<Rightarrow> service" where
  "settle_promise r s =
     (case sessionPromise s of
        Some Pending \<Rightarrow> s\<lparr>sessionPromise := Some (Settled r)\<rparr>
      | _ \<Rightarrow> s)"

text \<open>The two ways the transport reports a failed connection attempt.\<close>

datatype failure_report = ErrorCallback | PromiseRejection

fun report_failure :: "failure_report \<Rightarrow> service \<Rightarrow> service" where
  "report_failure ErrorCallback s = session_onerror s"
| "report_failure PromiseRejection s = promise_rejected (settle_promise Rejected s)"

fun report_failures :: "failure_report list \<Rightarrow> service \<Rightarrow> service" where
  "report_failures [] s = s"
| "report_failures (r # rs) s = report_failures rs (report_failure r s)"

section \<open>Vocabulary of the properties\<close>

text \<open>What an external observer sees of a run: the part of the log added since a state.\<close>

definition since :: "service \<Rightarrow> service \<Rightarrow> effect list" where
  "since s s' = drop (length (effects s)) (effects s')"

fun start_times :: "effect list \<Rightarrow> real list" where
  "start_times [] = []"
| "start_times (SourceStart i t # es) = t # start_times es"
| "start_times (e # es) = start_times es"

definition is_transcript :: "effect \<Rightarrow> bool" where
  "is_transcript e = (case e of OnTranscript t r \<Rightarrow> True | _ \<Rightarrow> False)"

definition transcripts :: "effect list \<Rightarrow> effect list" where
  "transcripts es = filter is_transcript es"

text \<open>
  What arrives at the playback scheduler, in order: the sink's clock moving on, an audio
  payload, and the end of playback of a scheduled source.
\<close>

datatype sink_event = Tick real | Payload string | Ended nat

fun play :: "decoder \<Rightarrow> sink_event list \<Rightarrow> service \<Rightarrow> service" where
  "play decode [] s = s"
| "play decode (Tick t # evs) s = play decode evs (set_clock t s)"
| "play decode (Payload p # evs) s = play decode evs (queueAudioOutput decode p s)"
| "play decode (Ended i # evs) s = play decode evs (source_onended i s)"

text \<open>Starvation: the cursor is behind the sink's clock.\<close>

definition starved :: "service \<Rightarrow> bool" where
  "starved s =
     (case audioContext s of None \<Rightarrow> False | Some c \<Rightarrow> nextStartTime s < currentTime c)"

fun no_starvation :: "decoder \<Rightarrow> sink_event list \<Rightarrow> service \<Rightarrow> bool" where
  "no_starvation decode [] s = True"
| "no_starvation decode (Tick t # evs) s = no_starvation decode evs (set_clock t s)"
| "no_starvation decode (Payload p # evs) s =
     (\<not> starved s \<and> no_starvation decode evs (queueAudioOutput decode p s))"
| "no_starvation decode (Ended i # evs) s = no_starvation decode evs (source_onended i s)"

text \<open>The durations of the payloads of a run that decode, in arrival order.\<close>

fun durations :: "decoder \<Rightarrow> sink_event list \<Rightarrow> real list" where
  "durations decode [] = []"
| "durations decode (Payload p # evs) =
     (case decode p of
        None \<Rightarrow> durations decode evs
      | Some b \<Rightarrow> duration b # durations decode evs)"
| "durations decode (e # evs) = durations decode evs"

fun payloads :: "sink_event list \<Rightarrow> string list" where
  "payloads [] = []"
| "payloads (Payload p # evs) = p # payloads evs"
| "payloads (e # evs) = payloads evs"

definition decodes :: "decoder \<Rightarrow> sink_event \<Rightarrow> bool" where
  "decodes decode e = (case e of Payload p \<Rightarrow> decode p \<noteq> None | _ \<Rightarrow> True)"

text \<open>Back-to-back start times from a cursor: \<open>c\<close>, \<open>c + d1\<close>, \<open>c + d1 + d2\<close>, ...\<close>

fun contiguous :: "real \<Rightarrow> real list \<Rightarrow> real list" where
  "contiguous c [] = []"
| "contiguous c (d # ds) = c # contiguous (c + d) ds"

text \<open>
  Modelled from the spec: \<^verbatim>\<open>decodeRemoteAudio\<close> of the PCM codec, whose source is not at
  hand. The payload is raw 16-bit PCM at the fixed output rate of 24 kHz (one \<open>char\<close> a
  byte, the text encoding left out); an odd-length payload fails, an empty one gives a
  buffer of length zero.
\<close>

definition decodeRemoteAudio :: decoder where
  "decodeRemoteAudio payload =
     (if odd (length payload) then None
      else Some \<lparr>buf_length = length payload div 2, buf_rate = 24000\<rparr>)"

text \<open>A state up to the log lines of failed decodes.\<close>

definition without_decode_log :: "service \<Rightarrow> service" where
  "without_decode_log s =
     s\<lparr>effects := filter (\<lambda>e. e \<noteq> ConsoleError ''Error decoding audio'') (effects s)\<rparr>"

text \<open>The effects the scheduler itself causes: starting a source and logging.\<close>

definition sched_effect :: "effect \<Rightarrow> bool" where
  "sched_effect e = (case e of SourceStart i t \<Rightarrow> True | ConsoleError x \<Rightarrow> True | _ \<Rightarrow> False)"

text \<open>
  A message cut down to one of the five events it can carry; a message without
  \<^verbatim>\<open>serverContent\<close> stays as it is.
\<close>

definition only_interruption :: "message \<Rightarrow> message" where
  "only_interruption m =
     \<lparr>serverContent =
        map_option
          (\<lambda>sc. \<lparr>interrupted = interrupted sc, modelTurn = None, inputTranscription = None,
                 outputTranscription = None, turnComplete = None\<rparr>)
          (serverContent m)\<rparr>"

definition only_audio :: "message \<Rightarrow> message" where
  "only_audio m =
     \<lparr>serverContent =
        map_option
          (\<lambda>sc. \<lparr>interrupted = None, modelTurn = modelTurn sc, inputTranscription = None,
                 outputTranscription = None, turnComplete = None\<rparr>)
          (serverContent m)\<rparr>"

definition only_input :: "message \<Rightarrow> message" where
  "only_input m =
     \<lparr>serverContent =
        map_option
          (\<lambda>sc. \<lparr>interrupted = None, modelTurn = None,
                 inputTranscription = inputTranscription sc,
                 outputTranscription = None, turnComplete = None\<rparr>)
          (serverContent m)\<rparr>"

definition only_output :: "message \<Rightarrow> message" where
  "only_output m =
     \<lparr>serverContent =
        map_option
          (\<lambda>sc. \<lparr>interrupted = None, modelTurn = None, inputTranscription = None,
                 outputTranscription = outputTranscription sc, turnComplete = None\<rparr>)
          (serverContent m)\<rparr>"

definition only_turn_complete :: "message \<Rightarrow> message" where
  "only_turn_complete m =
     \<lparr>serverContent =
        map_option
          (\<lambda>sc. \<lparr>interrupted = None, modelTurn = None, inputTranscription = None,
                 outputTranscription = None, turnComplete = turnComplete sc\<rparr>)
          (serverContent m)\<rparr>"

text \<open>The text a message adds to a transcript buffer: nothing when the field is absent.\<close>

definition fragment :: "string option \<Rightarrow> string" where
  "fragment t = (case t of None \<Rightarrow> [] | Some x \<Rightarrow> x)"

text \<open>The turns a turn-complete signal emits for the two accumulated texts.\<close>

definition turn_of :: "role \<Rightarrow> string \<Rightarrow> effect list" where
  "turn_of r x = (if trim x \<noteq> [] then [OnTranscript x r] else [])"

text \<open>
  All resources released: what \<^verbatim>\<open>cleanup\<close> leaves in the fields. \<open>releases s es\<close> says
  that the log \<open>es\<close> stops every track of the microphone stream \<open>s\<close> holds and closes each
  audio context \<open>s\<close> holds that is not closed already.
\<close>

definition released :: "service \<Rightarrow> bool" where
  "released s =
     (\<not> isConnected s \<and> stream s = None \<and> processor s = None \<and> inputSource s = None \<and>
      inputAudioContext s = None \<and> audioContext s = None \<and> scheduledSources s = [] \<and>
      nextStartTime s = 0 \<and> getOutputAnalyser s = None \<and> outputGain s = None \<and>
      sessionPromise s = None)"

definition closes :: "audio_ctx option \<Rightarrow> effect list \<Rightarrow> bool" where
  "closes c es =
     (case c of
        None \<Rightarrow> True
      | Some ctx \<Rightarrow> ctx_state ctx = Closed \<or> ContextClose (ctx_id ctx) \<in> set es)"

definition releases :: "service \<Rightarrow> effect list \<Rightarrow> bool" where
  "releases s es =
     ((case stream s of
         None \<Rightarrow> True
       | Some st \<Rightarrow> list_all (\<lambda>t. TrackStop t \<in> set es) (tracks st)) \<and>
      closes (inputAudioContext s) es \<and> closes (audioContext s) es)"

text \<open>What one run of \<^verbatim>\<open>cleanup\<close> on a state adds to the log.\<close>

definition cleanup_log :: "service \<Rightarrow> effect list" where
  "cleanup_log s =
     CleanupCalled #
     (case stream s of None \<Rightarrow> [] | Some st \<Rightarrow> map TrackStop (tracks st)) @
     (case processor s of None \<Rightarrow> [] | Some p \<Rightarrow> [NodeDisconnect p]) @
     (case inputSource s of None \<Rightarrow> [] | Some i \<Rightarrow> [NodeDisconnect i]) @
     (case inputAudioContext s of None \<Rightarrow> [] | Some c \<Rightarrow> close_effects c) @
     (case audioContext s of None \<Rightarrow> [] | Some c \<Rightarrow> close_effects c)"



subsection \<open>Example inputs\<close>

text \<open>
  A first \<^verbatim>\<open>connect\<close> on a new service with a one-track microphone (and the same
  \<^verbatim>\<open>connect\<close> while it waits for the microphone), the same service once the transport
  has opened and fulfilled the promise, and the service in the middle of playback.
\<close>

definition example_env :: connect_env where
  "example_env = \<lparr>prior = quiet, autoplay = Running, media = Some \<lparr>tracks = [7]\<rparr>\<rparr>"


definition connecting_service :: service where
  "connecting_service =
     (case connect example_env new_service of None \<Rightarrow> new_service | Some s \<Rightarrow> s)"

definition active_service :: service where
  "active_service =
     settle_promise (Fulfilled \<lparr>has_close = True, close_throws = False\<rparr>)
       (session_onopen connecting_service)"

definition playing_service :: service where
  "playing_service = play decodeRemoteAudio [Payload ''abcd'', Payload ''ab''] active_service"

definition example_run :: "sink_event list" where
  "example_run =
     [Payload ''abcd'', Tick (1 / 24000), Payload ''ab'', Ended 6, Payload ''abcdef'']"

definition faulty_run :: "sink_event list" where
  "faulty_run =
     [Payload ''abcd'', Payload ''abc'', Tick (1 / 24000), Payload ''ab'', Payload ''a'']"

text \<open>A stand-in for the codec on the capture side: two bytes a sample.\<close>

definition example_encode :: encoder where
  "example_encode inputData = replicate (2 * length inputData) (CHR ''A'')"

definition no_content :: server_content where
  "no_content =
     \<lparr>interrupted = None, modelTurn = None, inputTranscription = None,
      outputTranscription = None, turnComplete = None\<rparr>"

definition interruption_message :: message where
  "interruption_message = \<lparr>serverContent = Some (no_content\<lparr>interrupted := Some True\<rparr>)\<rparr>"

definition turn_complete_message :: message where
  "turn_complete_message = \<lparr>serverContent = Some (no_content\<lparr>turnComplete := Some True\<rparr>)\<rparr>"

definition interrupted_turn_message :: message where
  "interrupted_turn_message =
     \<lparr>serverContent = Some (no_content\<lparr>interrupted := Some True, turnComplete := Some True\<rparr>)\<rparr>"

definition user_fragment_message :: "string \<Rightarrow> message" where
  "user_fragment_message x =
     \<lparr>serverContent = Some (no_content\<lparr>inputTranscription := Some \<lparr>text_of = Some x\<rparr>\<rparr>)\<rparr>"

definition full_message :: message where
  "full_message =
     \<lparr>serverContent = Some
        \<lparr>interrupted = None,
         modelTurn = Some \<lparr>parts = Some
           [\<lparr>inlineData = Some \<lparr>mimeType = ''audio/pcm;rate=24000'', data = ''abcd''\<rparr>\<rparr>,
            \<lparr>inlineData = Some \<lparr>mimeType = ''audio/pcm;rate=24000'', data = ''abc''\<rparr>\<rparr>,
            \<lparr>inlineData = None\<rparr>]\<rparr>,
         inputTranscription = Some \<lparr>text_of = Some ''Hello''\<rparr>,
         outputTranscription = Some \<lparr>text_of = Some '' ''\<rparr>,
         turnComplete = Some True\<rparr>\<rparr>"

section \<open>The playback scheduler: facts about one enqueue and about runs\<close>

lemma start_times_append: "start_times (xs @ ys) = start_times xs @ start_times ys"
  by (induction xs rule: start_times.induct) simp_all

lemma queue_ready_kept:
  "audioContext s \<noteq> None \<and> outputGain s \<noteq> None \<Longrightarrow>
   audioContext (queueAudioOutput decode p s) = audioContext s \<and>
   outputGain (queueAudioOutput decode p s) = outputGain s"
  by (auto simp: queueAudioOutput_def emit_def Let_def split: option.splits)

lemma queue_bad:
  "audioContext s \<noteq> None \<Longrightarrow> outputGain s \<noteq> None \<Longrightarrow> decode p = None \<Longrightarrow>
   queueAudioOutput decode p s = emit [ConsoleError ''Error decoding audio''] s"
  by (auto simp: queueAudioOutput_def split: option.splits)

lemma queue_good:
  "audioContext s \<noteq> None \<Longrightarrow> outputGain s \<noteq> None \<Longrightarrow> decode p = Some b \<Longrightarrow>
   \<not> starved s \<Longrightarrow>
   nextStartTime (queueAudioOutput decode p s) = nextStartTime s + duration b \<and>
   start_times (effects (queueAudioOutput decode p s)) =
     start_times (effects s) @ [nextStartTime s]"
  by (auto simp: queueAudioOutput_def starved_def Let_def start_times_append
           split: option.splits)

lemma set_clock_kept:
  "nextStartTime (set_clock t s) = nextStartTime s \<and>
   effects (set_clock t s) = effects s \<and>
   outputGain (set_clock t s) = outputGain s \<and>
   (audioContext (set_clock t s) = None) = (audioContext s = None)"
  by (auto simp: set_clock_def split: option.splits)

lemma ended_kept:
  "nextStartTime (source_onended i s) = nextStartTime s \<and>
   effects (source_onended i s) = effects s \<and>
   outputGain (source_onended i s) = outputGain s \<and>
   audioContext (source_onended i s) = audioContext s"
  by (simp add: source_onended_def)

text \<open>
  The schedule of a run without starvation, whether or not every payload decodes: the
  payloads that decode start back to back from the cursor, the others leave no trace on
  the timeline.
\<close>

lemma play_contiguous:
  "audioContext s \<noteq> None \<Longrightarrow> outputGain s \<noteq> None \<Longrightarrow> no_starvation decode evs s \<Longrightarrow>
   start_times (effects (play decode evs s)) =
     start_times (effects s) @ contiguous (nextStartTime s) (durations decode evs) \<and>
   nextStartTime (play decode evs s) = nextStartTime s + sum_list (durations decode evs)"
proof (induction decode evs s rule: play.induct)
  case (1 decode s)
  then show ?case by simp
next
  case (2 decode t evs s)
  then show ?case by (simp add: set_clock_kept)
next
  case (3 decode p evs s)
  let ?s' = "queueAudioOutput decode p s"
  have ready: "audioContext ?s' \<noteq> None" "outputGain ?s' \<noteq> None"
    using 3 queue_ready_kept[of s decode p] by auto
  have ns: "\<not> starved s" "no_starvation decode evs ?s'"
    using 3 by auto
  note IH = "3.IH"[OF ready ns(2)]
  show ?case
  proof (cases "decode p")
    case None
    then have "?s' = emit [ConsoleError ''Error decoding audio''] s"
      using 3 queue_bad by auto
    then have "nextStartTime ?s' = nextStartTime s"
      and "start_times (effects ?s') = start_times (effects s)"
      by (simp_all add: emit_def start_times_append)
    with IH None show ?thesis by simp
  next
    case (Some b)
    have "nextStartTime ?s' = nextStartTime s + duration b \<and>
          start_times (effects ?s') = start_times (effects s) @ [nextStartTime s]"
      using "3.prems"(1,2) Some ns(1) by (rule queue_good)
    with IH Some show ?thesis by simp
  qed
next
  case (4 decode i evs s)
  then show ?case by (simp add: ended_kept)
qed

lemma no_starvation_take:
  "no_starvation decode evs s \<Longrightarrow> no_starvation decode (take k evs) s"
proof (induction decode evs s arbitrary: k rule: no_starvation.induct)
  case (1 decode s)
  then show ?case by simp
next
  case (2 decode t evs s)
  then show ?case by (cases k) simp_all
next
  case (3 decode p evs s)
  then show ?case by (cases k) simp_all
next
  case (4 decode i evs s)
  then show ?case by (cases k) simp_all
qed

lemma queue_effects_grow: "\<exists>es. effects (queueAudioOutput decode p s) = effects s @ es"
  by (auto simp: queueAudioOutput_def emit_def Let_def split: option.splits)

lemma play_effects_grow: "\<exists>es. effects (play decode evs s) = effects s @ es"
proof (induction decode evs s rule: play.induct)
  case (3 decode p evs s)
  obtain es1 where "effects (queueAudioOutput decode p s) = effects s @ es1"
    using queue_effects_grow by blast
  with 3 show ?case by auto
qed (simp_all add: set_clock_kept ended_kept)

lemma since_start_times:
  assumes "\<exists>es. effects s' = effects s @ es"
    and "start_times (effects s') = start_times (effects s) @ ts"
  shows "start_times (since s s') = ts"
proof -
  from assms(1) obtain es where es: "effects s' = effects s @ es" by blast
  then have "since s s' = es" by (simp add: since_def)
  moreover from es assms(2) have "start_times es = ts" by (simp add: start_times_append)
  ultimately show ?thesis by simp
qed

lemma decodes_simps:
  "decodes decode (Tick t)" "decodes decode (Ended i)"
  "decodes decode (Payload p) = (decode p \<noteq> None)"
  by (simp_all add: decodes_def)

lemma durations_all_decode:
  "\<forall>e\<in>set evs. decodes decode e \<Longrightarrow>
   map (\<lambda>p. map_option duration (decode p)) (payloads evs) = map Some (durations decode evs)"
  by (induction decode evs rule: durations.induct) (auto simp: decodes_def)

section \<open>The example states, evaluated\<close>

lemmas cleanup_defs = cleanup_def release_stream_def release_processor_def
  release_inputSource_def close_inputAudioContext_def close_audioContext_def close_effects_def

lemmas during_defs = cleanup_during_def close_inputAudioContext_during_def
  close_audioContext_during_def release_stream_def release_processor_def release_inputSource_def

lemmas setup_defs = connect_def connect_begin_def connect_resume_def disconnect_def quiet_def
  during_defs cleanup_defs emit_def new_service_def example_env_def
  session_onopen_def startAudioInput_def close_effects_def
lemmas sched_defs = queueAudioOutput_def set_clock_def source_onended_def decodeRemoteAudio_def
  duration_def since_def starved_def

lemma connecting_service_eq: "connecting_service =
  \<lparr>sessionPromise = Some Pending,
   audioContext = Some \<lparr>ctx_id = 0, ctx_state = Running, currentTime = 0\<rparr>,
   inputAudioContext = Some \<lparr>ctx_id = 1, ctx_state = Running, currentTime = 0\<rparr>,
   inputSource = None, processor = None, stream = Some \<lparr>tracks = [7]\<rparr>,
   nextStartTime = 0, scheduledSources = [], outputGain = Some 2, outputAnalyser = Some 3,
   currentInputTranscription = [], currentOutputTranscription = [],
   isConnected = False, fresh = 4, effects = [CleanupCalled]\<rparr>"
  by (simp add: connecting_service_def setup_defs)

lemma active_service_eq: "active_service =
  \<lparr>sessionPromise = Some (Settled (Fulfilled \<lparr>has_close = True, close_throws = False\<rparr>)),
   audioContext = Some \<lparr>ctx_id = 0, ctx_state = Running, currentTime = 0\<rparr>,
   inputAudioContext = Some \<lparr>ctx_id = 1, ctx_state = Running, currentTime = 0\<rparr>,
   inputSource = Some 4, processor = Some 5, stream = Some \<lparr>tracks = [7]\<rparr>,
   nextStartTime = 0, scheduledSources = [], outputGain = Some 2, outputAnalyser = Some 3,
   currentInputTranscription = [], currentOutputTranscription = [],
   isConnected = True, fresh = 6, effects = [CleanupCalled, OnOpen]\<rparr>"
  by (simp add: active_service_def connecting_service_eq setup_defs settle_promise_def)

lemma playing_service_eq: "playing_service =
  \<lparr>sessionPromise = Some (Settled (Fulfilled \<lparr>has_close = True, close_throws = False\<rparr>)),
   audioContext = Some \<lparr>ctx_id = 0, ctx_state = Running, currentTime = 0\<rparr>,
   inputAudioContext = Some \<lparr>ctx_id = 1, ctx_state = Running, currentTime = 0\<rparr>,
   inputSource = Some 4, processor = Some 5, stream = Some \<lparr>tracks = [7]\<rparr>,
   nextStartTime = 1 / 8000,
   scheduledSources = [\<lparr>src_id = 6, src_buffer = \<lparr>buf_length = 2, buf_rate = 24000\<rparr>\<rparr>,
                       \<lparr>src_id = 7, src_buffer = \<lparr>buf_length = 1, buf_rate = 24000\<rparr>\<rparr>],
   outputGain = Some 2, outputAnalyser = Some 3,
   currentInputTranscription = [], currentOutputTranscription = [],
   isConnected = True, fresh = 8,
   effects = [CleanupCalled, OnOpen, SourceStart 6 0, SourceStart 7 (1 / 12000)]\<rparr>"
  by (simp add: playing_service_def active_service_eq sched_defs)

lemmas msg_defs = msg_interrupted_def msg_parts_def msg_input_text_def msg_output_text_def
  msg_turn_complete_def truthy_flag_def no_content_def interruption_message_def
  turn_complete_message_def interrupted_turn_message_def user_fragment_message_def
  full_message_def

lemmas handler_defs = handleMessage_def emit_def append_input_def append_output_def
  dispatch_input_def dispatch_output_def Let_def trim_def is_space_def
  stopAllScheduledAudio_def transcripts_def is_transcript_def fragment_def turn_of_def

section \<open>Claims about the playback scheduler\<close>

text \<open>
  Claim C10. An audio payload delivered while the service has no output audio context or
  no output gain node (before any connect, or after cleanup) makes \<open>queueAudioOutput\<close>
  return at once: the whole state is unchanged, so the timeline cursor keeps its value and
  the scheduled set gains no element, and nothing is logged or thrown.
\<close>

theorem queue_without_sink_unchanged:
  "audioContext s = None \<or> outputGain s = None \<Longrightarrow> queueAudioOutput decode p s = s"
  by (auto simp: queueAudioOutput_def split: option.splits)

theorem queue_without_sink_unchanged_witness:
  "(audioContext new_service = None \<or> outputGain new_service = None) \<and>
   queueAudioOutput decodeRemoteAudio ''abcd'' new_service = new_service \<and>
   nextStartTime (queueAudioOutput decodeRemoteAudio ''abcd'' new_service) = 0 \<and>
   scheduledSources (queueAudioOutput decodeRemoteAudio ''abcd'' new_service) = []"
proof -
  have h: "audioContext new_service = None \<or> outputGain new_service = None"
    by (simp add: new_service_def)
  from queue_without_sink_unchanged[OF h, of decodeRemoteAudio "''abcd''"] h
  show ?thesis by (simp add: new_service_def)
qed

text \<open>
  Claim C1. Take any run of the scheduler in which the output context and gain exist, every
  payload decodes, and no payload arrives while the cursor is behind the sink's clock.
  After any number \<open>k\<close> of its events, the start times handed to \<^verbatim>\<open>source.start\<close> since
  the beginning are exactly \<open>cursor0\<close>, \<open>cursor0 + d1\<close>, \<open>cursor0 + d1 + d2\<close>, ... in
  arrival order, where \<open>d1\<close>, \<open>d2\<close>, ... are the durations of the decoded payloads, and the
  cursor stands at \<open>cursor0\<close> plus the sum of the durations enqueued so far: each enqueue
  has advanced it by exactly its buffer's duration.
\<close>

theorem contiguous_schedule:
  assumes "audioContext s \<noteq> None" and "outputGain s \<noteq> None"
    and "\<forall>e\<in>set evs. decodes decode e"
    and "no_starvation decode evs s"
  shows "map (\<lambda>p. map_option duration (decode p)) (payloads (take k evs)) =
           map Some (durations decode (take k evs)) \<and>
         start_times (since s (play decode (take k evs) s)) =
           contiguous (nextStartTime s) (durations decode (take k evs)) \<and>
         nextStartTime (play decode (take k evs) s) =
           nextStartTime s + sum_list (durations decode (take k evs))"
proof -
  have "\<forall>e\<in>set (take k evs). decodes decode e"
    using assms(3) by (meson in_set_takeD)
  then have ds: "map (\<lambda>p. map_option duration (decode p)) (payloads (take k evs)) =
                 map Some (durations decode (take k evs))"
    by (rule durations_all_decode)
  have "no_starvation decode (take k evs) s"
    using assms(4) by (rule no_starvation_take)
  with assms(1,2) have run:
    "start_times (effects (play decode (take k evs) s)) =
       start_times (effects s) @ contiguous (nextStartTime s) (durations decode (take k evs)) \<and>
     nextStartTime (play decode (take k evs) s) =
       nextStartTime s + sum_list (durations decode (take k evs))"
    by (rule play_contiguous)
  then have "start_times (since s (play decode (take k evs) s)) =
             contiguous (nextStartTime s) (durations decode (take k evs))"
    using since_start_times[OF play_effects_grow] by blast
  with ds run show ?thesis by blast
qed

theorem contiguous_schedule_witness:
  "audioContext active_service \<noteq> None \<and> outputGain active_service \<noteq> None \<and>
   no_starvation decodeRemoteAudio example_run active_service \<and>
   start_times (since active_service (play decodeRemoteAudio (take 5 example_run) active_service)) =
     [0, 1 / 12000, 1 / 8000] \<and>
   nextStartTime (play decodeRemoteAudio (take 5 example_run) active_service) = 1 / 4000 \<and>
   start_times (since active_service (play decodeRemoteAudio (take 3 example_run) active_service)) =
     [0, 1 / 12000] \<and>
   nextStartTime (play decodeRemoteAudio (take 3 example_run) active_service) = 1 / 8000"
proof -
  have h1: "audioContext active_service \<noteq> None" and h2: "outputGain active_service \<noteq> None"
    by (simp_all add: active_service_eq)
  have h3: "\<forall>e\<in>set example_run. decodes decodeRemoteAudio e"
    by (simp add: example_run_def decodes_simps decodeRemoteAudio_def)
  have h4: "no_starvation decodeRemoteAudio example_run active_service"
    by (simp add: example_run_def active_service_eq sched_defs)
  have d5: "durations decodeRemoteAudio (take 5 example_run) = [1 / 12000, 1 / 24000, 1 / 8000]"
    by (simp add: example_run_def decodeRemoteAudio_def duration_def)
  have d3: "durations decodeRemoteAudio (take 3 example_run) = [1 / 12000, 1 / 24000]"
    by (simp add: example_run_def decodeRemoteAudio_def duration_def)
  have c0: "nextStartTime active_service = 0"
    by (simp add: active_service_eq)
  from contiguous_schedule[OF h1 h2 h3 h4, of 5] contiguous_schedule[OF h1 h2 h3 h4, of 3]
    h1 h2 h4
  show ?thesis by (simp add: d5 d3 c0)
qed

section \<open>Runs with payloads that fail to decode\<close>

lemma scrub_eq:
  assumes "without_decode_log s = without_decode_log s'"
  shows "\<exists>es. s' = s\<lparr>effects := es\<rparr> \<and>
           filter (\<lambda>e. e \<noteq> ConsoleError ''Error decoding audio'') es =
           filter (\<lambda>e. e \<noteq> ConsoleError ''Error decoding audio'') (effects s)"
proof -
  have "s' = s\<lparr>effects := effects s'\<rparr>"
    using assms by (cases s; cases s') (simp add: without_decode_log_def)
  moreover have "filter (\<lambda>e. e \<noteq> ConsoleError ''Error decoding audio'') (effects s') =
                 filter (\<lambda>e. e \<noteq> ConsoleError ''Error decoding audio'') (effects s)"
    using assms by (cases s; cases s') (simp add: without_decode_log_def)
  ultimately show ?thesis by blast
qed

lemma scrub_queue_bad:
  "decode p = None \<Longrightarrow>
   without_decode_log (queueAudioOutput decode p s) = without_decode_log s"
  by (simp add: queueAudioOutput_def without_decode_log_def emit_def split: option.splits)

lemma scrub_queue_cong:
  assumes "without_decode_log s = without_decode_log s'"
  shows "without_decode_log (queueAudioOutput decode p s) =
         without_decode_log (queueAudioOutput decode p s')"
proof -
  from scrub_eq[OF assms] obtain es where s': "s' = s\<lparr>effects := es\<rparr>"
    and es: "filter (\<lambda>e. e \<noteq> ConsoleError ''Error decoding audio'') es =
             filter (\<lambda>e. e \<noteq> ConsoleError ''Error decoding audio'') (effects s)"
    by blast
  show ?thesis
    unfolding s' using es
    by (simp add: queueAudioOutput_def without_decode_log_def emit_def Let_def
             split: option.splits)
qed

lemma scrub_clock_cong:
  assumes "without_decode_log s = without_decode_log s'"
  shows "without_decode_log (set_clock t s) = without_decode_log (set_clock t s')"
proof -
  from scrub_eq[OF assms] obtain es where s': "s' = s\<lparr>effects := es\<rparr>"
    and es: "filter (\<lambda>e. e \<noteq> ConsoleError ''Error decoding audio'') es =
             filter (\<lambda>e. e \<noteq> ConsoleError ''Error decoding audio'') (effects s)"
    by blast
  show ?thesis
    unfolding s' using es
    by (simp add: set_clock_def without_decode_log_def split: option.splits)
qed

lemma scrub_ended_cong:
  assumes "without_decode_log s = without_decode_log s'"
  shows "without_decode_log (source_onended i s) = without_decode_log (source_onended i s')"
proof -
  from scrub_eq[OF assms] obtain es where s': "s' = s\<lparr>effects := es\<rparr>"
    and es: "filter (\<lambda>e. e \<noteq> ConsoleError ''Error decoding audio'') es =
             filter (\<lambda>e. e \<noteq> ConsoleError ''Error decoding audio'') (effects s)"
    by blast
  show ?thesis
    unfolding s' using es
    by (simp add: source_onended_def without_decode_log_def)
qed

lemma scrub_play:
  "without_decode_log s = without_decode_log s' \<Longrightarrow>
   without_decode_log (play decode evs s) =
   without_decode_log (play decode (filter (decodes decode) evs) s')"
proof (induction decode evs s arbitrary: s' rule: play.induct)
  case (1 decode s)
  then show ?case by simp
next
  case (2 decode t evs s)
  have "without_decode_log (set_clock t s) = without_decode_log (set_clock t s')"
    using "2.prems" by (rule scrub_clock_cong)
  then have "without_decode_log (play decode evs (set_clock t s)) =
             without_decode_log (play decode (filter (decodes decode) evs) (set_clock t s'))"
    by (rule "2.IH")
  then show ?case by (simp add: decodes_simps)
next
  case (3 decode p evs s)
  show ?case
  proof (cases "decode p")
    case None
    have "without_decode_log (queueAudioOutput decode p s) = without_decode_log s'"
      using "3.prems" None by (simp add: scrub_queue_bad)
    then have "without_decode_log (play decode evs (queueAudioOutput decode p s)) =
               without_decode_log (play decode (filter (decodes decode) evs) s')"
      by (rule "3.IH")
    then show ?thesis using None by (simp add: decodes_simps)
  next
    case (Some b)
    have "without_decode_log (queueAudioOutput decode p s) =
          without_decode_log (queueAudioOutput decode p s')"
      using "3.prems" by (rule scrub_queue_cong)
    then have "without_decode_log (play decode evs (queueAudioOutput decode p s)) =
               without_decode_log
                 (play decode (filter (decodes decode) evs) (queueAudioOutput decode p s'))"
      by (rule "3.IH")
    then show ?thesis using Some by (simp add: decodes_simps)
  qed
next
  case (4 decode i evs s)
  have "without_decode_log (source_onended i s) = without_decode_log (source_onended i s')"
    using "4.prems" by (rule scrub_ended_cong)
  then have "without_decode_log (play decode evs (source_onended i s)) =
             without_decode_log (play decode (filter (decodes decode) evs) (source_onended i s'))"
    by (rule "4.IH")
  then show ?case by (simp add: decodes_simps)
qed

lemma scrub_start_times:
  "start_times (effects (without_decode_log s)) = start_times (effects s)"
proof -
  have "start_times (filter (\<lambda>e. e \<noteq> ConsoleError x) es) = start_times es" for es x
    by (induction es rule: start_times.induct) auto
  then show ?thesis by (simp add: without_decode_log_def)
qed

lemma durations_filter:
  "durations decode (filter (decodes decode) evs) = durations decode evs"
  by (induction decode evs rule: durations.induct) (auto simp: decodes_simps)

lemma queue_kept:
  "isConnected (queueAudioOutput decode p s) = isConnected s \<and>
   audioContext (queueAudioOutput decode p s) = audioContext s \<and>
   outputGain (queueAudioOutput decode p s) = outputGain s \<and>
   sessionPromise (queueAudioOutput decode p s) = sessionPromise s \<and>
   stream (queueAudioOutput decode p s) = stream s \<and>
   currentInputTranscription (queueAudioOutput decode p s) = currentInputTranscription s \<and>
   currentOutputTranscription (queueAudioOutput decode p s) = currentOutputTranscription s"
  by (auto simp: queueAudioOutput_def emit_def Let_def split: option.splits)

lemma queue_effects_sched:
  "\<exists>es. effects (queueAudioOutput decode p s) = effects s @ es \<and> list_all sched_effect es"
  by (auto simp: queueAudioOutput_def emit_def Let_def sched_effect_def split: option.splits)

lemma play_effects_sched:
  "\<exists>es. effects (play decode evs s) = effects s @ es \<and> list_all sched_effect es"
proof (induction decode evs s rule: play.induct)
  case (3 decode p evs s)
  obtain es1 where "effects (queueAudioOutput decode p s) = effects s @ es1"
    "list_all sched_effect es1"
    using queue_effects_sched by blast
  with 3 show ?case by auto
qed (simp_all add: set_clock_def source_onended_def split: option.splits)

lemma play_session_kept:
  "isConnected (play decode evs s) = isConnected s \<and>
   sessionPromise (play decode evs s) = sessionPromise s \<and>
   stream (play decode evs s) = stream s \<and>
   (audioContext (play decode evs s) = None) = (audioContext s = None)"
proof (induction decode evs s rule: play.induct)
  case (3 decode p evs s)
  then show ?case using queue_kept[of decode p s] by simp
qed (simp_all add: set_clock_def source_onended_def split: option.splits)

text \<open>
  Claim C9. While the output context and gain exist, a payload that fails to decode is
  contained: the enqueue only logs \<^verbatim>\<open>Error decoding audio\<close> and changes nothing else. Over
  a whole run, the state reached is the one reached by the same run with the failing
  payloads taken out, up to those log lines; the session stays as it was (connection flag,
  session promise, microphone stream, output context), neither \<^verbatim>\<open>onError\<close> nor cleanup
  is invoked, and when the payloads that do decode arrive without starvation their start
  times are contiguous from the cursor, as if the bad chunks had never arrived.
\<close>

theorem decode_failure_contained:
  assumes "audioContext s \<noteq> None" and "outputGain s \<noteq> None"
  shows "(decode p = None \<longrightarrow>
            queueAudioOutput decode p s = emit [ConsoleError ''Error decoding audio''] s) \<and>
         without_decode_log (play decode evs s) =
           without_decode_log (play decode (filter (decodes decode) evs) s) \<and>
         isConnected (play decode evs s) = isConnected s \<and>
         sessionPromise (play decode evs s) = sessionPromise s \<and>
         stream (play decode evs s) = stream s \<and>
         audioContext (play decode evs s) \<noteq> None \<and>
         OnError \<notin> set (since s (play decode evs s)) \<and>
         CleanupCalled \<notin> set (since s (play decode evs s)) \<and>
         (no_starvation decode (filter (decodes decode) evs) s \<longrightarrow>
            start_times (since s (play decode evs s)) =
              contiguous (nextStartTime s) (durations decode evs) \<and>
            nextStartTime (play decode evs s) = nextStartTime s + sum_list (durations decode evs))"
proof -
  let ?s' = "play decode evs s"
  let ?f = "play decode (filter (decodes decode) evs) s"
  have one: "decode p = None \<longrightarrow>
             queueAudioOutput decode p s = emit [ConsoleError ''Error decoding audio''] s"
    using assms queue_bad by blast
  have scrub: "without_decode_log ?s' = without_decode_log ?f"
    by (rule scrub_play) simp
  have kept: "isConnected ?s' = isConnected s" "sessionPromise ?s' = sessionPromise s"
    "stream ?s' = stream s" "audioContext ?s' \<noteq> None"
    using play_session_kept[of decode evs s] assms(1) by simp_all
  obtain es where es: "effects ?s' = effects s @ es" "list_all sched_effect es"
    using play_effects_sched by blast
  then have since: "since s ?s' = es"
    by (simp add: since_def)
  have quiet: "OnError \<notin> set es" "CleanupCalled \<notin> set es"
    using es(2) by (auto simp: list_all_iff sched_effect_def)
  have run: "start_times (since s ?s') = contiguous (nextStartTime s) (durations decode evs) \<and>
             nextStartTime ?s' = nextStartTime s + sum_list (durations decode evs)"
    if ns: "no_starvation decode (filter (decodes decode) evs) s"
  proof -
    have f: "start_times (effects ?f) =
               start_times (effects s) @ contiguous (nextStartTime s) (durations decode evs) \<and>
             nextStartTime ?f = nextStartTime s + sum_list (durations decode evs)"
      using play_contiguous[OF assms ns] by (simp add: durations_filter)
    have "start_times (effects ?s') = start_times (effects (without_decode_log ?s'))"
      by (simp add: scrub_start_times)
    also have "\<dots> = start_times (effects ?f)"
      by (simp add: scrub scrub_start_times)
    finally have st: "start_times (effects ?s') =
        start_times (effects s) @ contiguous (nextStartTime s) (durations decode evs)"
      using f by simp
    have "nextStartTime ?s' = nextStartTime (without_decode_log ?s')"
      by (simp add: without_decode_log_def)
    also have "\<dots> = nextStartTime ?f"
      by (simp add: scrub) (simp add: without_decode_log_def)
    finally have "nextStartTime ?s' = nextStartTime s + sum_list (durations decode evs)"
      using f by simp
    moreover have "start_times (since s ?s') =
        contiguous (nextStartTime s) (durations decode evs)"
      using since_start_times[OF play_effects_grow st] .
    ultimately show ?thesis by simp
  qed
  show ?thesis
    using one scrub kept quiet run by (simp only: since) blast
qed

theorem decode_failure_contained_witness:
  "decodeRemoteAudio ''abc'' = None \<and>
   queueAudioOutput decodeRemoteAudio ''abc'' active_service =
     emit [ConsoleError ''Error decoding audio''] active_service \<and>
   filter (decodes decodeRemoteAudio) faulty_run =
     [Payload ''abcd'', Tick (1 / 24000), Payload ''ab''] \<and>
   isConnected (play decodeRemoteAudio faulty_run active_service) \<and>
   OnError \<notin> set (since active_service (play decodeRemoteAudio faulty_run active_service)) \<and>
   start_times (since active_service (play decodeRemoteAudio faulty_run active_service)) =
     [0, 1 / 12000] \<and>
   nextStartTime (play decodeRemoteAudio faulty_run active_service) = 1 / 8000"
proof -
  have h1: "audioContext active_service \<noteq> None" and h2: "outputGain active_service \<noteq> None"
    by (simp_all add: active_service_eq)
  have bad: "decodeRemoteAudio ''abc'' = None"
    by (simp add: decodeRemoteAudio_def)
  have f: "filter (decodes decodeRemoteAudio) faulty_run =
           [Payload ''abcd'', Tick (1 / 24000), Payload ''ab'']"
    by (simp add: faulty_run_def decodes_simps decodeRemoteAudio_def)
  have ns: "no_starvation decodeRemoteAudio (filter (decodes decodeRemoteAudio) faulty_run)
              active_service"
    unfolding f by (simp add: active_service_eq sched_defs)
  have ds: "durations decodeRemoteAudio faulty_run = [1 / 12000, 1 / 24000]"
    by (simp add: faulty_run_def decodeRemoteAudio_def duration_def)
  have c: "nextStartTime active_service = 0" "isConnected active_service"
    by (simp_all add: active_service_eq)
  from decode_failure_contained[OF h1 h2, of decodeRemoteAudio "''abc''" faulty_run]
    bad f ns
  show ?thesis by (simp add: ds c)
qed

section \<open>Interruption and the timeline cursor\<close>

lemma stop_all_effects:
  "effects (stopAllScheduledAudio s) =
     effects s @ map (\<lambda>src. SourceStop (src_id src)) (scheduledSources s)"
  by (simp add: stopAllScheduledAudio_def Let_def split: option.splits)

text \<open>
  Claim C2. Whatever the scheduled set holds, handling a message that carries the
  interruption signal calls \<^verbatim>\<open>stop\<close> on every source of the set, in its order, and does
  nothing else an observer can see (no transcript is emitted); afterwards the set is empty,
  the accumulated output transcript is the empty string, and, the sink being there, the
  cursor equals the sink's current time.
\<close>

theorem interruption_flushes:
  assumes "msg_interrupted m"
  shows "since s (handleMessage decode m s) =
           map (\<lambda>src. SourceStop (src_id src)) (scheduledSources s) \<and>
         scheduledSources (handleMessage decode m s) = [] \<and>
         currentOutputTranscription (handleMessage decode m s) = [] \<and>
         (\<forall>ctx. audioContext s = Some ctx \<longrightarrow>
            nextStartTime (handleMessage decode m s) = currentTime ctx)"
  using assms
  by (simp add: handleMessage_def since_def stopAllScheduledAudio_def Let_def
           split: option.splits)

theorem interruption_flushes_witness:
  "msg_interrupted interruption_message \<and>
   since playing_service (handleMessage decodeRemoteAudio interruption_message playing_service) =
     [SourceStop 6, SourceStop 7] \<and>
   scheduledSources (handleMessage decodeRemoteAudio interruption_message playing_service) = [] \<and>
   nextStartTime (handleMessage decodeRemoteAudio interruption_message playing_service) = 0 \<and>
   currentOutputTranscription
     (handleMessage decodeRemoteAudio interruption_message
        (playing_service\<lparr>currentOutputTranscription := ''Once upon''\<rparr>)) = []"
proof -
  have h: "msg_interrupted interruption_message"
    by (simp add: msg_defs)
  from interruption_flushes[OF h, of playing_service decodeRemoteAudio]
    interruption_flushes[OF h,
      of "playing_service\<lparr>currentOutputTranscription := ''Once upon''\<rparr>" decodeRemoteAudio]
    h
  show ?thesis by (simp add: playing_service_eq)
qed

lemma duration_nonneg: "0 \<le> duration b"
  by (simp add: duration_def)

lemma queue_cursor_mono: "nextStartTime s \<le> nextStartTime (queueAudioOutput decode p s)"
  using duration_nonneg
  by (auto simp: queueAudioOutput_def emit_def Let_def add_increasing2 split: option.splits)

lemma queue_parts_cursor_mono: "nextStartTime s \<le> nextStartTime (queue_parts decode ps s)"
proof (induction decode ps s rule: queue_parts.induct)
  case (1 decode s)
  then show ?case by simp
next
  case (2 decode p ps s)
  let ?s1 = "(case inlineData p of None \<Rightarrow> s
        | Some b \<Rightarrow> if prefix ''audio/pcm'' (mimeType b) then queueAudioOutput decode (data b) s
            else s)"
  have "nextStartTime s \<le> nextStartTime ?s1"
    by (simp add: queue_cursor_mono split: option.splits)
  also have "\<dots> \<le> nextStartTime (queue_parts decode ps ?s1)"
    by (rule "2.IH")
  finally show ?case by simp
qed

lemma transcript_steps_cursor:
  "nextStartTime (append_input m s) = nextStartTime s"
  "nextStartTime (append_output m s) = nextStartTime s"
  "nextStartTime (dispatch_input s) = nextStartTime s"
  "nextStartTime (dispatch_output s) = nextStartTime s"
  by (simp_all add: append_input_def append_output_def dispatch_input_def dispatch_output_def
        emit_def split: option.splits)

lemma queue_cursor_exact:
  assumes "audioContext s = Some ctx" and "outputGain s \<noteq> None" and "decode p = Some b"
  shows "nextStartTime (queueAudioOutput decode p s) =
           max (nextStartTime s) (currentTime ctx) + duration b \<and>
         since s (queueAudioOutput decode p s) =
           [SourceStart (fresh s) (max (nextStartTime s) (currentTime ctx))] \<and>
         scheduledSources (queueAudioOutput decode p s) =
           scheduledSources s @ [\<lparr>src_id = fresh s, src_buffer = b\<rparr>]"
  using assms by (auto simp: queueAudioOutput_def since_def Let_def max_def)

lemma queue_cursor_kept:
  "audioContext s = None \<or> outputGain s = None \<or> decode p = None \<Longrightarrow>
   nextStartTime (queueAudioOutput decode p s) = nextStartTime s"
  by (auto simp: queueAudioOutput_def emit_def split: option.splits)

text \<open>
  Claim C7, as the code has it. An enqueue with the sink there and a payload that decodes
  starts the new source at the later of the cursor and the sink's current time (the cursor
  stays, or snaps forward under starvation), registers it in the scheduled set, and
  leaves the cursor at that start time plus the buffer's duration, which is not negative;
  any other enqueue leaves the cursor where it is. So the cursor never decreases across an
  enqueue, nor across the end of a source's playback, a pending capture frame being sent,
  or the handling of any message without the interruption signal. A message with the
  interruption signal sets the cursor to the sink's current time, which lies behind the
  cursor whenever audio is still scheduled ahead: the counterexample below is a connected
  service with two buffers pending.
\<close>

theorem cursor_monotone_except_interruption:
  "nextStartTime s \<le> nextStartTime (queueAudioOutput decode p s) \<and>
   (\<forall>ctx b. audioContext s = Some ctx \<and> outputGain s \<noteq> None \<and> decode p = Some b \<longrightarrow>
      nextStartTime (queueAudioOutput decode p s) =
        max (nextStartTime s) (currentTime ctx) + duration b \<and>
      0 \<le> duration b \<and>
      since s (queueAudioOutput decode p s) =
        [SourceStart (fresh s) (max (nextStartTime s) (currentTime ctx))] \<and>
      scheduledSources (queueAudioOutput decode p s) =
        scheduledSources s @ [\<lparr>src_id = fresh s, src_buffer = b\<rparr>]) \<and>
   (audioContext s = None \<or> outputGain s = None \<or> decode p = None \<longrightarrow>
      nextStartTime (queueAudioOutput decode p s) = nextStartTime s) \<and>
   nextStartTime (source_onended i s) = nextStartTime s \<and>
   nextStartTime (send_pending r chunk s) = nextStartTime s \<and>
   (\<not> msg_interrupted m \<longrightarrow> nextStartTime s \<le> nextStartTime (handleMessage decode m s)) \<and>
   (msg_interrupted m \<longrightarrow>
      (\<forall>ctx. audioContext s = Some ctx \<longrightarrow>
         nextStartTime (handleMessage decode m s) = currentTime ctx))"
proof -
  have "nextStartTime s \<le> nextStartTime (handleMessage decode m s)" if "\<not> msg_interrupted m"
    using that queue_parts_cursor_mono[of s decode "msg_parts m"]
    by (simp add: handleMessage_def Let_def transcript_steps_cursor)
  moreover have "nextStartTime (handleMessage decode m s) = currentTime ctx"
    if "msg_interrupted m" "audioContext s = Some ctx" for ctx
    using that by (simp add: handleMessage_def stopAllScheduledAudio_def Let_def)
  moreover have "nextStartTime (send_pending r chunk s) = nextStartTime s"
    by (simp add: send_pending_def emit_def split: settled.splits)
  moreover have "nextStartTime (source_onended i s) = nextStartTime s"
    by (simp add: source_onended_def)
  moreover note queue_cursor_mono[of s decode p] queue_cursor_exact[of s _ decode p]
    queue_cursor_kept[of s decode p] duration_nonneg
  ultimately show ?thesis by blast
qed

theorem cursor_moves_back_counterexample:
  "isConnected playing_service \<and>
   nextStartTime (handleMessage decodeRemoteAudio interruption_message playing_service)
     < nextStartTime playing_service"
  by (simp add: playing_service_eq msg_defs handleMessage_def stopAllScheduledAudio_def)

theorem cursor_monotone_except_interruption_witness:
  "\<not> msg_interrupted full_message \<and> msg_interrupted interruption_message \<and>
   starved (set_clock 1 playing_service) \<and> \<not> starved playing_service \<and>
   nextStartTime (set_clock 1 playing_service) = 1 / 8000 \<and>
   nextStartTime (queueAudioOutput decodeRemoteAudio ''abcd'' (set_clock 1 playing_service)) =
     1 + 1 / 12000 \<and>
   since (set_clock 1 playing_service)
     (queueAudioOutput decodeRemoteAudio ''abcd'' (set_clock 1 playing_service)) =
     [SourceStart 8 1] \<and>
   nextStartTime (queueAudioOutput decodeRemoteAudio ''abcd'' playing_service) =
     1 / 8000 + 1 / 12000 \<and>
   since playing_service (queueAudioOutput decodeRemoteAudio ''abcd'' playing_service) =
     [SourceStart 8 (1 / 8000)] \<and>
   nextStartTime (queueAudioOutput decodeRemoteAudio ''abc'' (set_clock 1 playing_service)) =
     1 / 8000 \<and>
   nextStartTime (handleMessage decodeRemoteAudio full_message playing_service) = 1 / 4800 \<and>
   nextStartTime (handleMessage decodeRemoteAudio interruption_message playing_service) = 0"
proof -
  let ?late = "set_clock 1 playing_service"
  let ?b = "\<lparr>buf_length = 2, buf_rate = 24000\<rparr>"
  have h1: "\<not> msg_interrupted full_message" and h2: "msg_interrupted interruption_message"
    by (simp_all add: msg_defs)
  have late: "audioContext ?late = Some \<lparr>ctx_id = 0, ctx_state = Running, currentTime = 1\<rparr>"
    "outputGain ?late \<noteq> None" "nextStartTime ?late = 1 / 8000" "fresh ?late = 8"
    "starved ?late"
    by (simp_all add: playing_service_eq set_clock_def starved_def)
  have now: "audioContext playing_service =
      Some \<lparr>ctx_id = 0, ctx_state = Running, currentTime = 0\<rparr>"
    "outputGain playing_service \<noteq> None" "nextStartTime playing_service = 1 / 8000"
    "fresh playing_service = 8" "\<not> starved playing_service"
    by (simp_all add: playing_service_eq starved_def)
  have dec: "decodeRemoteAudio ''abcd'' = Some ?b" "decodeRemoteAudio ''abc'' = None"
    "duration ?b = 1 / 12000"
    by (simp_all add: decodeRemoteAudio_def duration_def)
  have f: "nextStartTime (handleMessage decodeRemoteAudio full_message playing_service) = 1 / 4800"
    by (simp add: playing_service_eq sched_defs msg_defs handleMessage_def emit_def
          append_input_def append_output_def dispatch_input_def dispatch_output_def
          Let_def trim_def is_space_def)
  from cursor_monotone_except_interruption
         [of ?late decodeRemoteAudio "''abcd''" 0 Rejected "''x''" full_message]
       cursor_monotone_except_interruption
         [of ?late decodeRemoteAudio "''abc''" 0 Rejected "''x''" full_message]
       cursor_monotone_except_interruption
         [of playing_service decodeRemoteAudio "''abcd''" 0 Rejected "''x''" interruption_message]
       h1 h2 late now dec f
  show ?thesis by simp
qed

section \<open>Transcript accumulation and the events of one message\<close>

lemma queue_parts_kept:
  "currentInputTranscription (queue_parts decode ps s) = currentInputTranscription s \<and>
   currentOutputTranscription (queue_parts decode ps s) = currentOutputTranscription s \<and>
   (\<exists>es. effects (queue_parts decode ps s) = effects s @ es \<and> list_all sched_effect es)"
proof (induction decode ps s rule: queue_parts.induct)
  case (1 decode s)
  then show ?case by simp
next
  case (2 decode p ps s)
  let ?s1 = "(case inlineData p of None \<Rightarrow> s
        | Some b \<Rightarrow> if prefix ''audio/pcm'' (mimeType b) then queueAudioOutput decode (data b) s
            else s)"
  have bufs: "currentInputTranscription ?s1 = currentInputTranscription s"
    "currentOutputTranscription ?s1 = currentOutputTranscription s"
    by (simp_all add: queue_kept split: option.splits)
  have "\<exists>es. effects ?s1 = effects s @ es \<and> list_all sched_effect es"
    using queue_effects_sched by (cases "inlineData p") auto
  then obtain es1 where es1: "effects ?s1 = effects s @ es1" "list_all sched_effect es1"
    by blast
  from "2.IH" obtain es2 where es2: "effects (queue_parts decode ps ?s1) = effects ?s1 @ es2"
    "list_all sched_effect es2"
    by blast
  have "effects (queue_parts decode ps ?s1) = effects s @ (es1 @ es2) \<and>
        list_all sched_effect (es1 @ es2)"
    using es1 es2 by simp
  then have "\<exists>es. effects (queue_parts decode ps ?s1) = effects s @ es \<and> list_all sched_effect es"
    by blast
  with "2.IH" bufs show ?case by simp
qed

lemma transcripts_sched: "list_all sched_effect es \<Longrightarrow> transcripts es = []"
  by (induction es) (auto simp: transcripts_def is_transcript_def sched_effect_def split: effect.splits)

lemma transcripts_turn_of: "transcripts (turn_of r x) = turn_of r x"
  by (simp add: transcripts_def is_transcript_def turn_of_def)

lemma transcripts_append: "transcripts (xs @ ys) = transcripts xs @ transcripts ys"
  by (simp add: transcripts_def)

lemma append_input_text:
  "currentInputTranscription (append_input m s) =
     currentInputTranscription s @ fragment (msg_input_text m) \<and>
   currentOutputTranscription (append_input m s) = currentOutputTranscription s \<and>
   effects (append_input m s) = effects s"
  by (simp add: append_input_def fragment_def split: option.splits)

lemma append_output_text:
  "currentOutputTranscription (append_output m s) =
     currentOutputTranscription s @ fragment (msg_output_text m) \<and>
   currentInputTranscription (append_output m s) = currentInputTranscription s \<and>
   effects (append_output m s) = effects s"
  by (simp add: append_output_def fragment_def split: option.splits)

lemma turn_flush:
  "effects (dispatch_output (dispatch_input s)) =
     effects s @ turn_of User (currentInputTranscription s) @
       turn_of Model (currentOutputTranscription s) \<and>
   currentInputTranscription (dispatch_output (dispatch_input s)) =
     (if trim (currentInputTranscription s) \<noteq> [] then [] else currentInputTranscription s) \<and>
   currentOutputTranscription (dispatch_output (dispatch_input s)) =
     (if trim (currentOutputTranscription s) \<noteq> [] then [] else currentOutputTranscription s)"
  by (simp add: dispatch_input_def dispatch_output_def emit_def turn_of_def)

text \<open>
  Claim C3, as the code has it. When a message without the interruption signal carries
  turn-complete, the accumulated text of a role is its buffer followed by the fragment of
  this very message. For each role whose accumulated text is not empty after trimming,
  exactly one \<^verbatim>\<open>onTranscript\<close> call is made, with that role and the full accumulated text,
  the user's before the model's, and the buffer of that role is cleared. A role whose
  accumulated text is empty or white space only gets no call, and its buffer is left as it
  is: the white space stays, and the next fragment is appended to it (the counterexample).
\<close>

theorem turn_complete_flushes_nonblank:
  assumes "msg_turn_complete m" and "\<not> msg_interrupted m"
  shows "transcripts (since s (handleMessage decode m s)) =
           turn_of User (currentInputTranscription s @ fragment (msg_input_text m)) @
           turn_of Model (currentOutputTranscription s @ fragment (msg_output_text m)) \<and>
         currentInputTranscription (handleMessage decode m s) =
           (if trim (currentInputTranscription s @ fragment (msg_input_text m)) \<noteq> [] then []
            else currentInputTranscription s @ fragment (msg_input_text m)) \<and>
         currentOutputTranscription (handleMessage decode m s) =
           (if trim (currentOutputTranscription s @ fragment (msg_output_text m)) \<noteq> [] then []
            else currentOutputTranscription s @ fragment (msg_output_text m))"
proof -
  let ?s1 = "queue_parts decode (msg_parts m) s"
  let ?s3 = "append_output m (append_input m ?s1)"
  have hm: "handleMessage decode m s = dispatch_output (dispatch_input ?s3)"
    using assms by (simp add: handleMessage_def Let_def)
  obtain es where es: "effects ?s1 = effects s @ es" "list_all sched_effect es"
    using queue_parts_kept by blast
  have tin: "currentInputTranscription ?s3 =
             currentInputTranscription s @ fragment (msg_input_text m)"
    by (simp add: append_output_text append_input_text queue_parts_kept)
  have tout: "currentOutputTranscription ?s3 =
              currentOutputTranscription s @ fragment (msg_output_text m)"
    by (simp add: append_output_text append_input_text queue_parts_kept)
  have eff: "effects ?s3 = effects s @ es"
    by (simp add: append_output_text append_input_text es)
  have "since s (handleMessage decode m s) =
          es @ turn_of User (currentInputTranscription ?s3) @
            turn_of Model (currentOutputTranscription ?s3)"
    unfolding hm since_def by (simp add: turn_flush eff)
  then have "transcripts (since s (handleMessage decode m s)) =
          turn_of User (currentInputTranscription ?s3) @
            turn_of Model (currentOutputTranscription ?s3)"
    by (simp add: transcripts_append transcripts_turn_of transcripts_sched es(2))
  then show ?thesis
    unfolding hm by (simp only: turn_flush tin tout)
qed

theorem turn_complete_flushes_nonblank_witness:
  "msg_turn_complete full_message \<and> \<not> msg_interrupted full_message \<and>
   transcripts (since playing_service (handleMessage decodeRemoteAudio full_message playing_service)) =
     [OnTranscript ''Hello'' User] \<and>
   currentInputTranscription (handleMessage decodeRemoteAudio full_message playing_service) = [] \<and>
   currentOutputTranscription (handleMessage decodeRemoteAudio full_message playing_service) = '' ''"
proof -
  have h1: "msg_turn_complete full_message" and h2: "\<not> msg_interrupted full_message"
    by (simp_all add: msg_defs)
  from turn_complete_flushes_nonblank[OF h1 h2, of playing_service decodeRemoteAudio] h1 h2
  show ?thesis
    by (simp add: playing_service_eq msg_defs turn_of_def fragment_def trim_def is_space_def)
qed

theorem blank_buffer_kept_counterexample:
  "trim ''   '' = [] \<and>
   currentInputTranscription
     (handleMessage decodeRemoteAudio turn_complete_message
        (active_service\<lparr>currentInputTranscription := ''   ''\<rparr>)) = ''   '' \<and>
   currentInputTranscription
     (handleMessage decodeRemoteAudio (user_fragment_message ''Hi'')
        (handleMessage decodeRemoteAudio turn_complete_message
           (active_service\<lparr>currentInputTranscription := ''   ''\<rparr>))) = ''   Hi''"
  by (simp add: active_service_eq msg_defs handler_defs)

lemma only_fields:
  "msg_interrupted (only_interruption m) = msg_interrupted m"
  "\<not> msg_interrupted (only_audio m)" "\<not> msg_interrupted (only_input m)"
  "\<not> msg_interrupted (only_output m)" "\<not> msg_interrupted (only_turn_complete m)"
  "msg_parts (only_audio m) = msg_parts m" "msg_parts (only_input m) = []"
  "msg_parts (only_output m) = []" "msg_parts (only_turn_complete m) = []"
  "msg_input_text (only_audio m) = None" "msg_input_text (only_input m) = msg_input_text m"
  "msg_input_text (only_output m) = None" "msg_input_text (only_turn_complete m) = None"
  "msg_output_text (only_audio m) = None" "msg_output_text (only_input m) = None"
  "msg_output_text (only_output m) = msg_output_text m"
  "msg_output_text (only_turn_complete m) = None"
  "\<not> msg_turn_complete (only_audio m)" "\<not> msg_turn_complete (only_input m)"
  "\<not> msg_turn_complete (only_output m)"
  "msg_turn_complete (only_turn_complete m) = msg_turn_complete m"
  by (cases "serverContent m";
      simp add: msg_interrupted_def msg_parts_def msg_input_text_def msg_output_text_def
        msg_turn_complete_def truthy_flag_def only_interruption_def only_audio_def
        only_input_def only_output_def only_turn_complete_def)+

lemma append_none:
  "msg_input_text m = None \<Longrightarrow> append_input m s = s"
  "msg_output_text m = None \<Longrightarrow> append_output m s = s"
  by (simp_all add: append_input_def append_output_def)

lemma handle_only:
  "handleMessage decode (only_audio m) s = queue_parts decode (msg_parts m) s"
  "handleMessage decode (only_input m) s = append_input m s"
  "handleMessage decode (only_output m) s = append_output m s"
  "handleMessage decode (only_turn_complete m) s =
     (if msg_turn_complete m then dispatch_output (dispatch_input s) else s)"
  by (simp_all add: handleMessage_def Let_def only_fields append_none
        append_input_def append_output_def)

text \<open>
  Claim C5, as the code has it. In a message without the interruption signal the four
  other events are handled one after the other and none suppresses another: handling the
  message is the same as handling, in this order, its audio alone, its input fragment
  alone, its output fragment alone and its turn-complete signal alone. The interruption
  signal is exclusive: a message that carries it is handled as if it carried nothing else
  (the handler returns after the flush), so audio, fragments and turn-complete in the same
  message are ignored, as the counterexample shows for turn-complete.
\<close>

theorem events_independent_unless_interrupted:
  "(\<not> msg_interrupted m \<longrightarrow>
      handleMessage decode m s =
        handleMessage decode (only_turn_complete m)
          (handleMessage decode (only_output m)
             (handleMessage decode (only_input m)
                (handleMessage decode (only_audio m) s)))) \<and>
   (msg_interrupted m \<longrightarrow>
      handleMessage decode m s = handleMessage decode (only_interruption m) s)"
proof -
  have "handleMessage decode m s = handleMessage decode (only_interruption m) s"
    if "msg_interrupted m"
    using that by (simp add: handleMessage_def only_fields)
  moreover have "handleMessage decode m s =
        handleMessage decode (only_turn_complete m)
          (handleMessage decode (only_output m)
             (handleMessage decode (only_input m)
                (handleMessage decode (only_audio m) s)))"
    if "\<not> msg_interrupted m"
    unfolding handle_only using that by (simp add: handleMessage_def Let_def)
  ultimately show ?thesis by blast
qed

theorem interruption_suppresses_counterexample:
  "msg_interrupted interrupted_turn_message \<and> msg_turn_complete interrupted_turn_message \<and>
   transcripts
     (since (active_service\<lparr>currentInputTranscription := ''Hello''\<rparr>)
        (handleMessage decodeRemoteAudio interrupted_turn_message
           (active_service\<lparr>currentInputTranscription := ''Hello''\<rparr>))) = [] \<and>
   transcripts
     (since (active_service\<lparr>currentInputTranscription := ''Hello''\<rparr>)
        (handleMessage decodeRemoteAudio (only_turn_complete interrupted_turn_message)
           (active_service\<lparr>currentInputTranscription := ''Hello''\<rparr>))) =
     [OnTranscript ''Hello'' User]"
  by (simp add: active_service_eq msg_defs handler_defs since_def only_turn_complete_def)

theorem events_independent_unless_interrupted_witness:
  "\<not> msg_interrupted full_message \<and> msg_interrupted interrupted_turn_message \<and>
   handleMessage decodeRemoteAudio full_message playing_service =
     handleMessage decodeRemoteAudio (only_turn_complete full_message)
       (handleMessage decodeRemoteAudio (only_output full_message)
          (handleMessage decodeRemoteAudio (only_input full_message)
             (handleMessage decodeRemoteAudio (only_audio full_message) playing_service))) \<and>
   handleMessage decodeRemoteAudio interrupted_turn_message playing_service =
     handleMessage decodeRemoteAudio (only_interruption interrupted_turn_message) playing_service"
proof -
  have h1: "\<not> msg_interrupted full_message" and h2: "msg_interrupted interrupted_turn_message"
    by (simp_all add: msg_defs)
  from events_independent_unless_interrupted[of full_message decodeRemoteAudio playing_service]
    events_independent_unless_interrupted
      [of interrupted_turn_message decodeRemoteAudio playing_service]
    h1 h2
  show ?thesis by simp
qed

section \<open>Capture frames of an inactive session\<close>

text \<open>
  Claim C8. Once \<^verbatim>\<open>isConnected\<close> is false, a capture frame is dropped: the handler
  returns before encoding and leaves nothing pending on the session promise, and a chunk
  that was pending when the flag changed is not sent when the promise settles, however it
  settles; the state, its log of transport calls included, is unchanged.
\<close>

theorem inactive_frames_dropped:
  "\<not> isConnected s \<Longrightarrow>
   onaudioprocess encode inputData s = None \<and> send_pending r base64Data s = s"
  by (simp add: onaudioprocess_def send_pending_def split: settled.splits)

theorem inactive_frames_dropped_witness:
  "onaudioprocess example_encode [0, 1 / 2] active_service = Some ''AAAA'' \<and>
   \<not> isConnected (active_service\<lparr>isConnected := False\<rparr>) \<and>
   onaudioprocess example_encode [0, 1 / 2] (active_service\<lparr>isConnected := False\<rparr>) = None \<and>
   send_pending (Fulfilled \<lparr>has_close = True, close_throws = False\<rparr>) ''AAAA''
     (active_service\<lparr>isConnected := False\<rparr>) = active_service\<lparr>isConnected := False\<rparr>"
proof -
  have h: "\<not> isConnected (active_service\<lparr>isConnected := False\<rparr>)"
    by simp
  have a: "onaudioprocess example_encode [0, 1 / 2] active_service = Some ''AAAA''"
    by (simp add: onaudioprocess_def example_encode_def active_service_eq eval_nat_numeral)
  from inactive_frames_dropped
         [OF h, of example_encode "[0, 1 / 2]" "Fulfilled \<lparr>has_close = True, close_throws = False\<rparr>"
            "''AAAA''"]
       h a
  show ?thesis by simp
qed

section \<open>Cleanup, failure reports and disconnect\<close>

lemma release_stream_facts:
  "effects (release_stream s) =
     effects s @ (case stream s of None \<Rightarrow> [] | Some st \<Rightarrow> map TrackStop (tracks st))"
  "stream (release_stream s) = None"
  "processor (release_stream s) = processor s"
  "inputSource (release_stream s) = inputSource s"
  "inputAudioContext (release_stream s) = inputAudioContext s"
  "audioContext (release_stream s) = audioContext s"
  "isConnected (release_stream s) = isConnected s"
  by (simp_all add: release_stream_def emit_def split: option.splits)

lemma release_processor_facts:
  "effects (release_processor s) =
     effects s @ (case processor s of None \<Rightarrow> [] | Some p \<Rightarrow> [NodeDisconnect p])"
  "stream (release_processor s) = stream s"
  "processor (release_processor s) = None"
  "inputSource (release_processor s) = inputSource s"
  "inputAudioContext (release_processor s) = inputAudioContext s"
  "audioContext (release_processor s) = audioContext s"
  "isConnected (release_processor s) = isConnected s"
  by (simp_all add: release_processor_def emit_def split: option.splits)

lemma release_inputSource_facts:
  "effects (release_inputSource s) =
     effects s @ (case inputSource s of None \<Rightarrow> [] | Some i \<Rightarrow> [NodeDisconnect i])"
  "stream (release_inputSource s) = stream s"
  "processor (release_inputSource s) = processor s"
  "inputSource (release_inputSource s) = None"
  "inputAudioContext (release_inputSource s) = inputAudioContext s"
  "audioContext (release_inputSource s) = audioContext s"
  "isConnected (release_inputSource s) = isConnected s"
  by (simp_all add: release_inputSource_def emit_def split: option.splits)

lemma close_inputAudioContext_facts:
  "effects (close_inputAudioContext s) =
     effects s @ (case inputAudioContext s of None \<Rightarrow> [] | Some c \<Rightarrow> close_effects c)"
  "stream (close_inputAudioContext s) = stream s"
  "processor (close_inputAudioContext s) = processor s"
  "inputSource (close_inputAudioContext s) = inputSource s"
  "inputAudioContext (close_inputAudioContext s) = None"
  "audioContext (close_inputAudioContext s) = audioContext s"
  "isConnected (close_inputAudioContext s) = isConnected s"
  by (simp_all add: close_inputAudioContext_def emit_def split: option.splits)

lemma close_audioContext_facts:
  "effects (close_audioContext s) =
     effects s @ (case audioContext s of None \<Rightarrow> [] | Some c \<Rightarrow> close_effects c)"
  "stream (close_audioContext s) = stream s"
  "processor (close_audioContext s) = processor s"
  "inputSource (close_audioContext s) = inputSource s"
  "inputAudioContext (close_audioContext s) = inputAudioContext s"
  "audioContext (close_audioContext s) = None"
  "isConnected (close_audioContext s) = isConnected s"
  by (simp_all add: close_audioContext_def emit_def split: option.splits)

lemmas release_facts = release_stream_facts release_processor_facts release_inputSource_facts
  close_inputAudioContext_facts close_audioContext_facts

lemma cleanup_effects: "effects (cleanup s) = effects s @ cleanup_log s"
  by (simp add: cleanup_def Let_def release_facts cleanup_log_def emit_def)

lemma cleanup_released: "released (cleanup s)"
  by (simp add: released_def getOutputAnalyser_def cleanup_def Let_def release_facts emit_def)

lemma cleanup_since: "since s (cleanup s) = cleanup_log s"
  by (simp add: since_def cleanup_effects)

lemma cleanup_log_counts:
  "count_list (cleanup_log s) OnError = 0 \<and> count_list (cleanup_log s) CleanupCalled = 1"
proof -
  have "OnError \<notin> set (cleanup_log s)"
    by (auto simp: cleanup_log_def close_effects_def split: option.splits)
  moreover have "CleanupCalled \<notin> set (tl (cleanup_log s))"
    by (auto simp: cleanup_log_def close_effects_def split: option.splits)
  ultimately show ?thesis
    by (simp add: cleanup_log_def count_list_0_iff[symmetric] del: count_list_0_iff)
qed


lemma onerror_since:
  "since s (session_onerror s) =
     [ConsoleError ''Session error'', OnError] @
     cleanup_log (emit [ConsoleError ''Session error'', OnError] (s\<lparr>isConnected := False\<rparr>))"
  by (simp add: since_def session_onerror_def cleanup_effects) (simp add: emit_def)

lemma rejected_since:
  "inputAudioContext s \<noteq> None \<Longrightarrow>
   since s (promise_rejected s) =
     [ConsoleError ''Connection failed'', OnError] @
     cleanup_log (emit [ConsoleError ''Connection failed'', OnError] s)"
  by (simp add: since_def promise_rejected_def cleanup_effects) (simp add: emit_def)

lemma single_report_once:
  assumes "inputAudioContext s \<noteq> None"
  shows "count_list (since s (report_failure r s)) OnError = 1 \<and>
         count_list (since s (report_failure r s)) CleanupCalled = 1"
proof (cases r)
  case ErrorCallback
  then show ?thesis by (simp add: onerror_since cleanup_log_counts)
next
  case PromiseRejection
  let ?s = "settle_promise Rejected s"
  have kept: "inputAudioContext ?s \<noteq> None" "effects ?s = effects s"
    using assms by (simp_all add: settle_promise_def split: option.splits promise.splits)
  have "count_list (since ?s (promise_rejected ?s)) OnError = 1 \<and>
        count_list (since ?s (promise_rejected ?s)) CleanupCalled = 1"
    using kept(1) by (simp add: rejected_since cleanup_log_counts)
  moreover have "since s (promise_rejected ?s) = since ?s (promise_rejected ?s)"
    using kept(2) by (simp add: since_def)
  ultimately show ?thesis using PromiseRejection by simp
qed

lemma callback_then_rejection_once:
  "count_list (since s (report_failures [ErrorCallback, PromiseRejection] s)) OnError = 1 \<and>
   count_list (since s (report_failures [ErrorCallback, PromiseRejection] s)) CleanupCalled = 1"
proof -
  have "inputAudioContext (session_onerror s) = None"
    using cleanup_released[of "emit [ConsoleError ''Session error'', OnError] (s\<lparr>isConnected := False\<rparr>)"]
    by (simp add: session_onerror_def released_def)
  moreover have "sessionPromise (session_onerror s) = None"
    using cleanup_released[of "emit [ConsoleError ''Session error'', OnError] (s\<lparr>isConnected := False\<rparr>)"]
    by (simp add: session_onerror_def released_def)
  ultimately have "report_failures [ErrorCallback, PromiseRejection] s = session_onerror s"
    by (simp add: promise_rejected_def settle_promise_def)
  then show ?thesis by (simp add: onerror_since cleanup_log_counts)
qed

lemma close_during_id:
  "close_inputAudioContext_during id s = close_inputAudioContext s"
  "close_audioContext_during id s = close_audioContext s"
  by (simp_all add: close_inputAudioContext_during_def close_inputAudioContext_def
        close_audioContext_during_def close_audioContext_def close_effects_def emit_def
        split: option.splits)

lemma cleanup_during_id: "cleanup_during id id s = cleanup s"
  by (simp add: cleanup_during_def cleanup_def close_during_id)

lemma onerror_during_id: "session_onerror_during id id s = session_onerror s"
  by (simp add: session_onerror_during_def session_onerror_def cleanup_during_id)

lemma rejection_during_cleanup_twice:
  "count_list
     (since connecting_service
        (session_onerror_during (report_failure PromiseRejection) id connecting_service))
     OnError = 2 \<and>
   count_list
     (since connecting_service
        (session_onerror_during (report_failure PromiseRejection) id connecting_service))
     CleanupCalled = 2"
  by (simp add: connecting_service_eq since_def session_onerror_during_def promise_rejected_def
        settle_promise_def during_defs cleanup_defs emit_def)

text \<open>
  Claim C4. A failed connection attempt must lead to exactly one \<^verbatim>\<open>onError\<close> call and
  one cleanup. The code achieves this when the failure is reported through one channel
  only (\<open>single_report_once\<close>), and when the error callback comes first and its cleanup
  has run to the end before the rejection of the promise is handled
  (\<open>callback_then_rejection_once\<close>): the guard \<^verbatim>\<open>if (this.inputAudioContext)\<close> of the
  rejection handler then finds the context released. When the rejection is handled while
  that cleanup is still suspended at the closing of the input context, the guard finds the
  context set, and \<^verbatim>\<open>onError\<close> is called twice (\<open>rejection_during_cleanup_twice\<close>). The
  error callback itself has no guard at all: on a connecting service whose promise is
  rejected first and whose error callback fires second for the same failure, \<^verbatim>\<open>onError\<close>
  is called twice and cleanup runs twice.
\<close>

theorem double_error_notification:
  "count_list
     (since connecting_service
        (report_failures [PromiseRejection, ErrorCallback] connecting_service)) OnError = 2 \<and>
   count_list
     (since connecting_service
        (report_failures [PromiseRejection, ErrorCallback] connecting_service)) CleanupCalled = 2"
  by (simp add: connecting_service_eq since_def promise_rejected_def session_onerror_def
        settle_promise_def cleanup_defs emit_def)


lemma emit_nil: "emit [] s = s"
  by (simp add: emit_def)

lemma releases_emit: "releases (emit es s) es' = releases s es'"
  by (simp add: releases_def emit_def)






lemma close_session_emit: "\<exists>es. close_session r s = emit es s"
proof (cases r)
  case Rejected
  then show ?thesis by (auto simp: close_session_def)
next
  case (Fulfilled sess)
  have "s = emit [] s" by (simp add: emit_def)
  then show ?thesis using Fulfilled by (auto simp: close_session_def)
qed







end
